theory Spec2Isabelle
  imports Main "HOL-Library.Word"
begin

section \<open>The cfile reader of \<^verbatim>\<open>src/cfile/cfile_reader.cc\<close>\<close>

text \<open>
  A shallow embedding of \<^verbatim>\<open>CFileReader\<close> and \<^verbatim>\<open>CFileIterator\<close>.
  A C++ function \<^verbatim>\<open>Status f(args, T *out)\<close> becomes a function that takes the
  contents of \<^verbatim>\<open>*out\<close> before the call and returns the \<^verbatim>\<open>Status\<close> paired with the
  contents of \<^verbatim>\<open>*out\<close> after it. A failed \<^verbatim>\<open>CHECK\<close> ends the process; that is the
  outcome \<open>Aborted\<close>. Member functions that change the object return the changed object.
\<close>

subsection \<open>Basic types\<close>

type_synonym byte = "8 word"
type_synonym bytes = "byte list"
type_synonym u32 = "32 word"
type_synonym u64 = "64 word"

text \<open>
  \<^verbatim>\<open>util/status.h\<close>: the outcomes this file constructs or tests. \<^verbatim>\<open>RETURN_NOT_OK(s)\<close>
  returns \<open>s\<close> from the enclosing function unless \<open>s\<close> is \<open>OK\<close>.
\<close>

datatype Status = OK | Corruption string | IOError string | NotFound string

text \<open>The result of running a function that contains a \<^verbatim>\<open>CHECK\<close>.\<close>

datatype 'a run = Aborted | Returned 'a

text \<open>
  \<^verbatim>\<open>block_pointer.h\<close>: a block pointer is a 64-bit file offset and a 32-bit size,
  read by \<^verbatim>\<open>offset()\<close> and \<^verbatim>\<open>size()\<close>.
  \<^verbatim>\<open>BlockData\<close> is a slice over a buffer it shares; only the bytes of the slice are
  modelled.
\<close>

record BlockPointer =
  ptr_offset :: u64
  ptr_size :: u32

type_synonym BlockData = bytes

text \<open>
  \<^verbatim>\<open>cfile.pb.h\<close>: the footer holds the list of named B-trees. \<open>metadata_identifier\<close> stands for
  \<^verbatim>\<open>info.metadata().identifier()\<close> and \<open>root_block\<close> for
  \<^verbatim>\<open>BlockPointer(info.root_block())\<close>. The header message is opaque (type \<open>'h\<close>).
\<close>

record BTreeInfoPB =
  metadata_identifier :: string
  root_block :: BlockPointer

record CFileFooterPB =
  btrees :: "BTreeInfoPB list"

datatype State = kUninitialized | kInitialized

text \<open>
  The reader. A name may not end in an underscore here, so the member \<^verbatim>\<open>state_\<close> is
  the field \<open>state\<close>, and so on. \<open>file_Read\<close> is
  \<^verbatim>\<open>file_->Read(offset, n, &slice, scratch)\<close>: it returns a status and the slice that
  was read, which may be shorter than \<open>n\<close>. \<open>header\<close> and \<open>footer\<close> are
  \<^verbatim>\<open>scoped_ptr\<close>s, \<open>None\<close> while null.
\<close>

record 'h CFileReader =
  file_Read :: "u64 \<Rightarrow> nat \<Rightarrow> Status \<times> bytes"
  file_size :: u64
  state :: State
  header :: "'h option"
  footer :: "CFileFooterPB option"

text \<open>
  What the translation unit leaves open: the generated protobuf parsers
  (\<^verbatim>\<open>ParseFromArray(data, size)\<close> gets the slice that was read and the size that was
  asked for, and returns its answer and the message it leaves in the object), the
  freshly constructed messages, and the indeterminate contents of the two locals
  \<^verbatim>\<open>header_size\<close> and \<^verbatim>\<open>footer_size\<close>, which are declared without an initialiser.
\<close>

record 'h reader_env =
  new_CFileHeaderPB :: 'h
  header_ParseFromArray :: "bytes \<Rightarrow> nat \<Rightarrow> bool \<times> 'h"
  new_CFileFooterPB :: CFileFooterPB
  footer_ParseFromArray :: "bytes \<Rightarrow> nat \<Rightarrow> bool \<times> CFileFooterPB"
  header_size_uninit :: u32
  footer_size_uninit :: u32

subsection \<open>Framing: magic and length\<close>

definition kMagicAndLengthSize :: nat where
  "kMagicAndLengthSize = 12"

definition kMaxHeaderFooterPBSize :: nat where
  "kMaxHeaderFooterPBSize = 64 * 1024"

text \<open>
  Modelled from the spec: \<^verbatim>\<open>kMagicString\<close> is declared in \<^verbatim>\<open>cfile.h\<close>, which is not among
  the sources. The spec gives the 8-byte magic \<^verbatim>\<open>kuducfl!\<close>, and the source comments
  ``8-byte magic, followed by 4-byte header size''.
\<close>

definition kMagicString :: bytes where
  "kMagicString = [0x6B, 0x75, 0x64, 0x75, 0x63, 0x66, 0x6C, 0x21]"

text \<open>
  Modelled from the spec: \<^verbatim>\<open>DecodeFixed32\<close> is declared in \<^verbatim>\<open>util/coding.h\<close>, which is not
  among the sources. The spec: ``decodes the trailing 4 bytes as a little-endian
  unsigned length''. The argument is the memory from the pointer on; the caller always
  passes four bytes.
\<close>

fun DecodeFixed32 :: "bytes \<Rightarrow> u32" where
  "DecodeFixed32 (b0 # b1 # b2 # b3 # _) =
     of_nat (unat b0 + 256 * unat b1 + 65536 * unat b2 + 16777216 * unat b3)"
| "DecodeFixed32 _ = 0"

text \<open>
  \<^verbatim>\<open>memcmp(kMagicString.c_str(), data.data(), kMagicString.size()) != 0\<close> compares the
  first \<^verbatim>\<open>kMagicString.size()\<close> bytes of the slice with the magic. \<^verbatim>\<open>*parsed_len\<close> is
  assigned before the range test, so the caller's variable holds the decoded value on
  the ``invalid data size'' path too, and is untouched on the first two error paths.
\<close>

definition ParseMagicAndLength :: "bytes \<Rightarrow> u32 \<Rightarrow> Status \<times> u32" where
  "ParseMagicAndLength data parsed_len =
     (if length data \<noteq> kMagicAndLengthSize then (Corruption ''Bad size data'', parsed_len)
      else if take (length kMagicString) data \<noteq> kMagicString
        then (Corruption ''bad magic'', parsed_len)
      else
        let parsed_len' = DecodeFixed32 (drop (length kMagicString) data)
        in if parsed_len' \<le> 0 \<or> unat parsed_len' > kMaxHeaderFooterPBSize
           then (Corruption ''invalid data size'', parsed_len')
           else (OK, parsed_len'))"

definition ReadMagicAndLength :: "'h CFileReader \<Rightarrow> u64 \<Rightarrow> u32 \<Rightarrow> Status \<times> u32" where
  "ReadMagicAndLength r offset len =
     (case file_Read r offset kMagicAndLengthSize of
        (s, sl) \<Rightarrow> if s \<noteq> OK then (s, len) else ParseMagicAndLength sl len)"

subsection \<open>Init\<close>

definition ReadAndParseHeader ::
  "'h reader_env \<Rightarrow> 'h CFileReader \<Rightarrow> (Status \<times> 'h CFileReader) run" where
  "ReadAndParseHeader E r =
     (if state r \<noteq> kUninitialized then Aborted
      else case ReadMagicAndLength r 0 (header_size_uninit E) of
        (s, header_size) \<Rightarrow>
          if s \<noteq> OK then Returned (s, r)
          else
            let r1 = r\<lparr>header := Some (new_CFileHeaderPB E)\<rparr>
            in case file_Read r1 (of_nat kMagicAndLengthSize) (unat header_size) of
              (s2, header_slice) \<Rightarrow>
                if s2 \<noteq> OK then Returned (s2, r1)
                else case header_ParseFromArray E header_slice (unat header_size) of
                  (parsed, h) \<Rightarrow>
                    if \<not> parsed
                    then Returned (Corruption ''Invalid cfile pb header'', r1\<lparr>header := Some h\<rparr>)
                    else Returned (OK, r1\<lparr>header := Some h\<rparr>))"

text \<open>
  The status of \<^verbatim>\<open>ReadMagicAndLength\<close> is dropped here (it is not wrapped in
  \<^verbatim>\<open>RETURN_NOT_OK\<close>); only the contents of \<^verbatim>\<open>footer_size\<close> after the call are used.
  \<^verbatim>\<open>off\<close> is computed in unsigned 64-bit arithmetic.
\<close>

definition ReadAndParseFooter ::
  "'h reader_env \<Rightarrow> 'h CFileReader \<Rightarrow> (Status \<times> 'h CFileReader) run" where
  "ReadAndParseFooter E r =
     (if state r \<noteq> kUninitialized then Aborted
      else if \<not> (unat (file_size r) > kMagicAndLengthSize * 2) then Aborted
      else
        let footer_size =
              snd (ReadMagicAndLength r (file_size r - of_nat kMagicAndLengthSize)
                     (footer_size_uninit E));
            r1 = r\<lparr>footer := Some (new_CFileFooterPB E)\<rparr>;
            off = file_size r - of_nat kMagicAndLengthSize - ucast footer_size
        in case file_Read r1 off (unat footer_size) of
          (s, footer_slice) \<Rightarrow>
            if s \<noteq> OK then Returned (s, r1)
            else case footer_ParseFromArray E footer_slice (unat footer_size) of
              (parsed, f) \<Rightarrow>
                if \<not> parsed
                then Returned (Corruption ''Invalid cfile pb footer'', r1\<lparr>footer := Some f\<rparr>)
                else Returned (OK, r1\<lparr>footer := Some f\<rparr>))"

definition Init :: "'h reader_env \<Rightarrow> 'h CFileReader \<Rightarrow> (Status \<times> 'h CFileReader) run" where
  "Init E r =
     (if state r \<noteq> kUninitialized then Aborted
      else case ReadAndParseHeader E r of
        Aborted \<Rightarrow> Aborted
      | Returned (s, r1) \<Rightarrow>
          if s \<noteq> OK then Returned (s, r1)
          else case ReadAndParseFooter E r1 of
            Aborted \<Rightarrow> Aborted
          | Returned (s2, r2) \<Rightarrow>
              if s2 \<noteq> OK then Returned (s2, r2)
              else Returned (OK, r2\<lparr>state := kInitialized\<rparr>))"

subsection \<open>ReadBlock\<close>

text \<open>
  \<^verbatim>\<open>ptr.offset() + ptr.size()\<close> adds a \<^verbatim>\<open>uint64_t\<close> and a \<^verbatim>\<open>uint32_t\<close>: the sum is
  a \<^verbatim>\<open>uint64_t\<close> and wraps around.
\<close>

definition ReadBlock ::
  "'h CFileReader \<Rightarrow> BlockPointer \<Rightarrow> BlockData \<Rightarrow> (Status \<times> BlockData) run" where
  "ReadBlock r ptr ret =
     (if state r \<noteq> kInitialized then Aborted
      else if \<not> (ptr_offset ptr > 0 \<and> ptr_offset ptr + ucast (ptr_size ptr) < file_size r) then Aborted
      else case file_Read r (ptr_offset ptr) (unat (ptr_size ptr)) of
        (st, s) \<Rightarrow>
          if st \<noteq> OK then Returned (st, ret)
          else if length s \<noteq> unat (ptr_size ptr)
            then Returned (IOError ''Could not read full block length'', ret)
          else Returned (OK, s))"

text \<open>
  Modelled from the spec: the constructor of \<^verbatim>\<open>CFileReader\<close> is in \<^verbatim>\<open>cfile_reader.h\<close>,
  which is not among the sources. The spec: the reader owns the file and its size and
  is ``created uninitialized''; header and footer are parsed by \<^verbatim>\<open>Init()\<close>.
\<close>

definition new_CFileReader :: "(u64 \<Rightarrow> nat \<Rightarrow> Status \<times> bytes) \<Rightarrow> u64 \<Rightarrow> 'h CFileReader" where
  "new_CFileReader f n =
     \<lparr>file_Read = f, file_size = n, state = kUninitialized, header = None, footer = None\<rparr>"

subsection \<open>Named index roots\<close>

text \<open>
  The \<^verbatim>\<open>BOOST_FOREACH\<close> loop over \<^verbatim>\<open>footer_->btrees()\<close>. \<^verbatim>\<open>*ptr\<close> is assigned only
  when an entry matches. \<^verbatim>\<open>footer_\<close> is dereferenced without a test of the state; a
  null \<^verbatim>\<open>scoped_ptr\<close> ends the run.
\<close>

primrec GetIndexRootBlock_loop ::
  "BTreeInfoPB list \<Rightarrow> string \<Rightarrow> BlockPointer \<Rightarrow> Status \<times> BlockPointer" where
  "GetIndexRootBlock_loop [] ident ptr = (NotFound ''no such index'', ptr)"
| "GetIndexRootBlock_loop (info # rest) ident ptr =
     (if metadata_identifier info = ident then (OK, root_block info)
      else GetIndexRootBlock_loop rest ident ptr)"

definition GetIndexRootBlock ::
  "'h CFileReader \<Rightarrow> string \<Rightarrow> BlockPointer \<Rightarrow> (Status \<times> BlockPointer) run" where
  "GetIndexRootBlock r ident ptr =
     (case footer r of
        None \<Rightarrow> Aborted
      | Some f \<Rightarrow> Returned (GetIndexRootBlock_loop (btrees f) ident ptr))"

text \<open>
  Modelled from the spec: \<^verbatim>\<open>kPositionalIndexIdentifier\<close> is declared in \<^verbatim>\<open>cfile.h\<close>, which
  is not among the sources. The spec names the positional index \<^verbatim>\<open>idx.positional\<close>.
\<close>

definition kPositionalIndexIdentifier :: string where
  "kPositionalIndexIdentifier = ''idx.positional''"

subsection \<open>Descent through the index\<close>

text \<open>
  \<^verbatim>\<open>IndexBlockReader<KeyType>\<close> is declared in \<^verbatim>\<open>index_block.h\<close>, which is not among the
  sources; its three operations are parameters. \<open>idx_Parse\<close> builds the reader over
  the slice and runs \<^verbatim>\<open>Parse()\<close>. \<open>idx_Search blk key k0\<close> is
  \<^verbatim>\<open>Search(key, &result, ret_key)\<close> with \<open>k0\<close> the contents of \<^verbatim>\<open>*ret_key\<close> before
  the call; it returns the status, \<^verbatim>\<open>result\<close> and the contents of \<^verbatim>\<open>*ret_key\<close> after.
\<close>

record ('k, 'b) IndexBlockReader =
  idx_Parse :: "bytes \<Rightarrow> Status \<times> 'b"
  idx_Search :: "'b \<Rightarrow> 'k \<Rightarrow> 'k \<Rightarrow> Status \<times> BlockPointer \<times> 'k"
  idx_IsLeaf :: "'b \<Rightarrow> bool"

text \<open>
  The recursion is not bounded by the code, so the function is partial: \<open>None\<close> is a
  descent that never returns.
\<close>

partial_function (option) SearchDownward ::
  "('k, 'b) IndexBlockReader \<Rightarrow> 'h CFileReader \<Rightarrow> 'k \<Rightarrow> BlockPointer \<Rightarrow> BlockPointer \<Rightarrow> 'k
     \<Rightarrow> (Status \<times> BlockPointer \<times> 'k) run option" where
  "SearchDownward I rd search_key in_block ret ret_key =
     (case ReadBlock rd in_block [] of
        Aborted \<Rightarrow> Some Aborted
      | Returned (s, data) \<Rightarrow>
          if s \<noteq> OK then Some (Returned (s, ret, ret_key))
          else case idx_Parse I data of
            (s2, idx_reader) \<Rightarrow>
              if s2 \<noteq> OK then Some (Returned (s2, ret, ret_key))
              else case idx_Search I idx_reader search_key ret_key of
                (s3, result, ret_key') \<Rightarrow>
                  if s3 \<noteq> OK then Some (Returned (s3, ret, ret_key'))
                  else if idx_IsLeaf I idx_reader then Some (Returned (OK, result, ret_key'))
                  else SearchDownward I rd search_key result ret ret_key')"

text \<open>\<^verbatim>\<open>BlockPointer posidx_root;\<close> is default-constructed.\<close>

definition default_BlockPointer :: BlockPointer where
  "default_BlockPointer = \<lparr>ptr_offset = 0, ptr_size = 0\<rparr>"

definition SearchPosition ::
  "(u32, 'b) IndexBlockReader \<Rightarrow> 'h CFileReader \<Rightarrow> u32 \<Rightarrow> BlockPointer \<Rightarrow> u32
     \<Rightarrow> (Status \<times> BlockPointer \<times> u32) run option" where
  "SearchPosition I r pos ptr ret_key =
     (if state r \<noteq> kInitialized then Some Aborted
      else case GetIndexRootBlock r kPositionalIndexIdentifier default_BlockPointer of
        Aborted \<Rightarrow> Some Aborted
      | Returned (s, posidx_root) \<Rightarrow>
          if s \<noteq> OK then Some (Returned (s, ptr, ret_key))
          else SearchDownward I r pos posidx_root ptr ret_key)"

subsection \<open>The iterator\<close>

text \<open>
  \<^verbatim>\<open>IndexTreeIterator<uint32_t>\<close> (\<^verbatim>\<open>index_btree.h\<close>) and \<^verbatim>\<open>IntBlockDecoder\<close> are not
  among the sources; their operations are parameters over the cursor state \<open>'c\<close> and
  the decoder state \<open>'d\<close>. The cursor reads index blocks through the reader it was
  built with, so its seek can end the run. \<^verbatim>\<open>ordinal_pos()\<close> and \<^verbatim>\<open>Count()\<close> are taken
  as 32-bit unsigned values, like the ordinal they are compared with.
\<close>

record ('h, 'c) IndexTreeIterator =
  new_IndexTreeIterator :: "'h CFileReader \<Rightarrow> BlockPointer \<Rightarrow> 'c"
  SeekAtOrBefore :: "'c \<Rightarrow> u32 \<Rightarrow> (Status \<times> 'c) run"
  GetCurrentBlockPointer :: "'c \<Rightarrow> BlockPointer"

record 'd IntBlockDecoder =
  new_IntBlockDecoder :: "bytes \<Rightarrow> 'd"
  ParseHeader :: "'d \<Rightarrow> Status \<times> 'd"
  ordinal_pos :: "'d \<Rightarrow> u32"
  Count :: "'d \<Rightarrow> u32"
  SeekToPositionInBlock :: "'d \<Rightarrow> u32 \<Rightarrow> 'd"

record ('h, 'c, 'd) CFileIterator =
  reader :: "'h CFileReader"
  idx_iter :: 'c
  seeked :: bool
  dblk_data :: BlockData
  dblk :: "'d option"

definition new_CFileIterator ::
  "('h, 'c) IndexTreeIterator \<Rightarrow> 'h CFileReader \<Rightarrow> BlockPointer \<Rightarrow> ('h, 'c, 'd) CFileIterator" where
  "new_CFileIterator T r posidx_root =
     \<lparr>reader = r, idx_iter = new_IndexTreeIterator T r posidx_root, seeked = False,
      dblk_data = [], dblk = None\<rparr>"

definition NewIteratorByPos ::
  "('h, 'c) IndexTreeIterator \<Rightarrow> 'h CFileReader \<Rightarrow> ('h, 'c, 'd) CFileIterator option
     \<Rightarrow> (Status \<times> ('h, 'c, 'd) CFileIterator option) run" where
  "NewIteratorByPos T r iter =
     (case GetIndexRootBlock r kPositionalIndexIdentifier default_BlockPointer of
        Aborted \<Rightarrow> Aborted
      | Returned (s, posidx_root) \<Rightarrow>
          if s \<noteq> OK then Returned (s, iter)
          else Returned (OK, Some (new_CFileIterator T r posidx_root)))"

text \<open>
  \<open>dchecks\<close> says whether the build keeps \<^verbatim>\<open>DCHECK\<close> (a debug build, where a failed
  \<^verbatim>\<open>DCHECK\<close> ends the run) or compiles it out (\<^verbatim>\<open>NDEBUG\<close>). The comparisons are on
  \<^verbatim>\<open>uint32_t\<close>.
\<close>

definition SeekToOrdinal ::
  "bool \<Rightarrow> ('h, 'c) IndexTreeIterator \<Rightarrow> 'd IntBlockDecoder \<Rightarrow> ('h, 'c, 'd) CFileIterator \<Rightarrow> u32
     \<Rightarrow> (Status \<times> ('h, 'c, 'd) CFileIterator) run" where
  "SeekToOrdinal dchecks T D it ord_idx =
     (let it0 = it\<lparr>seeked := False\<rparr>
      in case SeekAtOrBefore T (idx_iter it0) ord_idx of
        Aborted \<Rightarrow> Aborted
      | Returned (s, c) \<Rightarrow>
          let it1 = it0\<lparr>idx_iter := c\<rparr>
          in if s \<noteq> OK then Returned (s, it1)
             else
               let dblk_ptr = GetCurrentBlockPointer T c
               in case ReadBlock (reader it1) dblk_ptr [] of
                 Aborted \<Rightarrow> Aborted
               | Returned (s2, data) \<Rightarrow>
                   if s2 \<noteq> OK then Returned (s2, it1)
                   else case ParseHeader D (new_IntBlockDecoder D data) of
                     (s3, d1) \<Rightarrow>
                       let it2 = it1\<lparr>dblk_data := data, dblk := Some d1\<rparr>
                       in if s3 \<noteq> OK then Returned (s3, it2)
                          else if ord_idx \<ge> ordinal_pos D d1 + Count D d1
                            then Returned
                              (NotFound ''trying to seek past highest ordinal in file'', it2)
                          else if dchecks \<and>
                                  \<not> (ord_idx \<ge> ordinal_pos D d1 \<and>
                                     ord_idx < ordinal_pos D d1 + Count D d1)
                            then Aborted
                          else
                            let d2 = SeekToPositionInBlock D d1 (ord_idx - ordinal_pos D d1)
                            in if dchecks \<and> \<not> (ord_idx = ordinal_pos D d2) then Aborted
                               else Returned (OK, it2\<lparr>dblk := Some d2, seeked := True\<rparr>))"

definition GetCurrentOrdinal :: "'d IntBlockDecoder \<Rightarrow> ('h, 'c, 'd) CFileIterator \<Rightarrow> u32 run" where
  "GetCurrentOrdinal D it =
     (if \<not> seeked it then Aborted
      else case dblk it of
        None \<Rightarrow> Aborted
      | Some d \<Rightarrow> Returned (ordinal_pos D d))"

section \<open>Notions used to state the properties\<close>

text \<open>
  The trailing four bytes of a 12-byte preamble, read as a little-endian unsigned
  number (the spec's \<^verbatim>\<open>payload_len\<close>).
\<close>

definition trailing_le32 :: "bytes \<Rightarrow> nat" where
  "trailing_le32 data =
     unat (data ! 8) + 256 * unat (data ! 9) + 65536 * unat (data ! 10) +
     16777216 * unat (data ! 11)"

text \<open>
  One visit of the descent at block \<open>fst pk\<close>, with \<open>snd pk\<close> in \<^verbatim>\<open>*ret_key\<close>: the block
  is read, parsed and searched; \<open>None\<close> when one of the three fails, else whether the
  block is a leaf, and the pointer and key the search produced.
\<close>

definition idx_visit ::
  "('k, 'b) IndexBlockReader \<Rightarrow> 'h CFileReader \<Rightarrow> 'k \<Rightarrow> BlockPointer \<times> 'k
     \<Rightarrow> (bool \<times> BlockPointer \<times> 'k) option" where
  "idx_visit I rd key pk =
     (case ReadBlock rd (fst pk) [] of
        Aborted \<Rightarrow> None
      | Returned (s, data) \<Rightarrow>
          if s \<noteq> OK then None
          else case idx_Parse I data of
            (s2, blk) \<Rightarrow>
              if s2 \<noteq> OK then None
              else case idx_Search I blk key (snd pk) of
                (s3, c, k1) \<Rightarrow> if s3 \<noteq> OK then None else Some (idx_IsLeaf I blk, c, k1))"

text \<open>
  \<open>idx_step\<close>: the block is an internal one and its search leads to the child \<open>ck\<close>.
  \<open>idx_leaf_answer\<close>: the block is a leaf and its search produced \<open>ck\<close>.
\<close>

definition idx_step ::
  "('k, 'b) IndexBlockReader \<Rightarrow> 'h CFileReader \<Rightarrow> 'k \<Rightarrow> BlockPointer \<times> 'k
     \<Rightarrow> BlockPointer \<times> 'k \<Rightarrow> bool" where
  "idx_step I rd key pk ck = (idx_visit I rd key pk = Some (False, ck))"

definition idx_leaf_answer ::
  "('k, 'b) IndexBlockReader \<Rightarrow> 'h CFileReader \<Rightarrow> 'k \<Rightarrow> BlockPointer \<times> 'k
     \<Rightarrow> BlockPointer \<times> 'k \<Rightarrow> bool" where
  "idx_leaf_answer I rd key pk ck = (idx_visit I rd key pk = Some (True, ck))"

text \<open>
  Following the child pointers from \<open>pk\<close> reaches a leaf whose search produces \<open>ck\<close>.
\<close>

definition leaf_reached ::
  "('k, 'b) IndexBlockReader \<Rightarrow> 'h CFileReader \<Rightarrow> 'k \<Rightarrow> BlockPointer \<times> 'k
     \<Rightarrow> BlockPointer \<times> 'k \<Rightarrow> bool" where
  "leaf_reached I rd key pk ck \<longleftrightarrow>
     (\<exists>qk. (idx_step I rd key)\<^sup>*\<^sup>* pk qk \<and> idx_leaf_answer I rd key qk ck)"

text \<open>
  Modelled from the spec: \<^verbatim>\<open>IntBlockDecoder\<close> is not among the sources. The spec: after
  the header is decoded \<^verbatim>\<open>ordinal_pos\<close> is ``the ordinal of the block's first entry''
  and \<^verbatim>\<open>count\<close> the ``number of entries in the block''; the decoder is then moved ``to
  the relative position'' \<open>n\<close> ``within the block'', and \<^verbatim>\<open>GetCurrentOrdinal()\<close>
  ``returns the decoder's current ordinal position''. So on a decoder whose header was
  just parsed, a relative seek to a position \<open>n\<close> within the block (\<open>n < count\<close>) moves
  \<^verbatim>\<open>ordinal_pos\<close> to the first ordinal plus \<open>n\<close>. Nothing is said of a position outside
  the block.
\<close>

definition relative_seek_contract :: "'d IntBlockDecoder \<Rightarrow> bool" where
  "relative_seek_contract D \<longleftrightarrow>
     (\<forall>data d n. ParseHeader D (new_IntBlockDecoder D data) = (OK, d) \<and> n < Count D d \<longrightarrow>
        ordinal_pos D (SeekToPositionInBlock D d n) = ordinal_pos D d + n)"

text \<open>
  The data block that the index seek for \<open>ord_idx\<close> finds, with its header decoded;
  \<open>None\<close> when the seek, the read of the block or the decoding fails.
\<close>

definition found_block ::
  "('h, 'c) IndexTreeIterator \<Rightarrow> 'd IntBlockDecoder \<Rightarrow> ('h, 'c, 'd) CFileIterator \<Rightarrow> u32
     \<Rightarrow> 'd option" where
  "found_block T D it ord_idx =
     (case SeekAtOrBefore T (idx_iter it) ord_idx of
        Aborted \<Rightarrow> None
      | Returned (s, c) \<Rightarrow>
          if s \<noteq> OK then None
          else case ReadBlock (reader it) (GetCurrentBlockPointer T c) [] of
            Aborted \<Rightarrow> None
          | Returned (s2, data) \<Rightarrow>
              if s2 \<noteq> OK then None
              else case ParseHeader D (new_IntBlockDecoder D data) of
                (s3, d1) \<Rightarrow> if s3 \<noteq> OK then None else Some d1)"

text \<open>
  Modelled from the spec: \<^verbatim>\<open>IndexTreeIterator\<close> is not among the sources. The spec: an
  at-or-before seek positions the cursor on ``the entry with the greatest key not
  exceeding the search key''. So a cursor that a successful seek for \<open>k\<close> left at \<open>c'\<close>
  is left at \<open>c'\<close> again by a seek for the same \<open>k\<close>.
\<close>

definition at_or_before_contract :: "('h, 'c) IndexTreeIterator \<Rightarrow> bool" where
  "at_or_before_contract T \<longleftrightarrow>
     (\<forall>c k c'. SeekAtOrBefore T c k = Returned (OK, c') \<longrightarrow>
        SeekAtOrBefore T c' k = Returned (OK, c'))"

section \<open>An example file\<close>

text \<open>
  A file held in memory: a read returns the bytes from \<open>off\<close> on, at most \<open>n\<close> of them.
\<close>

definition mem_file :: "bytes \<Rightarrow> u64 \<Rightarrow> nat \<Rightarrow> Status \<times> bytes" where
  "mem_file contents off n = (OK, take n (drop (unat off) contents))"

text \<open>
  35 bytes: the header preamble (length 1) at 0, the header at 12, an internal index
  block at 13 that points to the leaf index block at 16, which points to the data block
  at 19 (first ordinal 0, 100 entries), the footer (the root pointer: offset 13, size
  3) at 21 and the footer preamble (length 2) at 23.
\<close>

definition example_bytes :: bytes where
  "example_bytes =
     [0x6B, 0x75, 0x64, 0x75, 0x63, 0x66, 0x6C, 0x21, 1, 0, 0, 0,
      0x48,
      0, 16, 3,
      1, 19, 2,
      0, 100,
      13, 3,
      0x6B, 0x75, 0x64, 0x75, 0x63, 0x66, 0x6C, 0x21, 2, 0, 0, 0]"

text \<open>
  25 bytes: a header as above, no footer payload, and a footer preamble with the right
  magic and the length 0.
\<close>

definition zero_footer_bytes :: bytes where
  "zero_footer_bytes =
     [0x6B, 0x75, 0x64, 0x75, 0x63, 0x66, 0x6C, 0x21, 1, 0, 0, 0,
      0x48,
      0x6B, 0x75, 0x64, 0x75, 0x63, 0x66, 0x6C, 0x21, 0, 0, 0, 0]"

text \<open>
  26 bytes: a header as above, a footer of one byte, which the footer parser of the
  example rejects, and a footer preamble with the length 1.
\<close>

definition bad_footer_bytes :: bytes where
  "bad_footer_bytes =
     [0x6B, 0x75, 0x64, 0x75, 0x63, 0x66, 0x6C, 0x21, 1, 0, 0, 0,
      0x48,
      0xFF,
      0x6B, 0x75, 0x64, 0x75, 0x63, 0x66, 0x6C, 0x21, 1, 0, 0, 0]"

text \<open>
  Parsers for the example. The header message is its bytes. A footer of two bytes names
  one positional index whose root has that offset and size; an empty footer names none;
  a parser that did not get the bytes it asked for fails.
\<close>

definition example_footer_parse :: "bytes \<Rightarrow> nat \<Rightarrow> bool \<times> CFileFooterPB" where
  "example_footer_parse bs n =
     (if length bs \<noteq> n then (False, \<lparr>btrees = []\<rparr>)
      else case bs of
        [] \<Rightarrow> (True, \<lparr>btrees = []\<rparr>)
      | [off, sz] \<Rightarrow>
          (True, \<lparr>btrees = [\<lparr>metadata_identifier = kPositionalIndexIdentifier,
                              root_block = \<lparr>ptr_offset = ucast off, ptr_size = ucast sz\<rparr>\<rparr>]\<rparr>)
      | _ \<Rightarrow> (False, \<lparr>btrees = []\<rparr>))"

definition example_env :: "bytes reader_env" where
  "example_env =
     \<lparr>new_CFileHeaderPB = [],
      header_ParseFromArray = (\<lambda>bs n. (length bs = n, bs)),
      new_CFileFooterPB = \<lparr>btrees = []\<rparr>,
      footer_ParseFromArray = example_footer_parse,
      header_size_uninit = 0,
      footer_size_uninit = 0\<rparr>"

definition example_reader :: "bytes CFileReader" where
  "example_reader =
     \<lparr>file_Read = mem_file example_bytes, file_size = 35, state = kInitialized,
      header = Some [0x48],
      footer = Some \<lparr>btrees = [\<lparr>metadata_identifier = kPositionalIndexIdentifier,
                                 root_block = \<lparr>ptr_offset = 13, ptr_size = 3\<rparr>\<rparr>]\<rparr>\<rparr>"

text \<open>
  An index block of the example is three bytes: 1 for a leaf or 0 for an internal
  block, then the offset and the size of the one entry, whose key is 0.
\<close>

definition example_index :: "(u32, bytes) IndexBlockReader" where
  "example_index =
     \<lparr>idx_Parse = (\<lambda>bs. if length bs = 3 \<and> hd bs \<le> 1 then (OK, bs)
                          else (Corruption ''bad index block'', bs)),
      idx_Search = (\<lambda>blk key k0. (OK, \<lparr>ptr_offset = ucast (blk ! 1), ptr_size = ucast (blk ! 2)\<rparr>, 0)),
      idx_IsLeaf = (\<lambda>blk. hd blk = 1)\<rparr>"

text \<open>
  The cursor of the example is its current data block pointer; the index has the one
  entry with key 0, so every seek ends at the data block at 19. The decoder of the
  example is the block (first ordinal, count) with the position in the block.
\<close>

definition example_cursor :: "(bytes, BlockPointer) IndexTreeIterator" where
  "example_cursor =
     \<lparr>new_IndexTreeIterator = (\<lambda>r root. default_BlockPointer),
      SeekAtOrBefore = (\<lambda>c key. Returned (OK, \<lparr>ptr_offset = 19, ptr_size = 2\<rparr>)),
      GetCurrentBlockPointer = (\<lambda>c. c)\<rparr>"

definition example_decoder :: "(bytes \<times> u32) IntBlockDecoder" where
  "example_decoder =
     \<lparr>new_IntBlockDecoder = (\<lambda>bs. (bs, 0)),
      ParseHeader = (\<lambda>d. if length (fst d) = 2 then (OK, (fst d, 0))
                           else (Corruption ''bad data block'', d)),
      ordinal_pos = (\<lambda>d. ucast (fst d ! 0) + snd d),
      Count = (\<lambda>d. ucast (fst d ! 1)),
      SeekToPositionInBlock = (\<lambda>d n. (fst d, n))\<rparr>"

definition example_iterator :: "(bytes, BlockPointer, bytes \<times> u32) CFileIterator" where
  "example_iterator =
     new_CFileIterator example_cursor example_reader \<lparr>ptr_offset = 13, ptr_size = 3\<rparr>"

text \<open>The iterator of the example after a seek to the ordinal 50.\<close>

definition example_seeked :: "(bytes, BlockPointer, bytes \<times> u32) CFileIterator" where
  "example_seeked =
     example_iterator\<lparr>idx_iter := \<lparr>ptr_offset = 19, ptr_size = 2\<rparr>, seeked := True,
       dblk_data := [0, 100], dblk := Some ([0, 100], 50)\<rparr>"

text \<open>
  A file like the example, but its data block says that its first ordinal is 60, while
  the index entry that leads to it has the key 0: index and data disagree.
\<close>

definition skewed_bytes :: bytes where
  "skewed_bytes =
     [0x6B, 0x75, 0x64, 0x75, 0x63, 0x66, 0x6C, 0x21, 1, 0, 0, 0,
      0x48,
      0, 16, 3,
      1, 19, 2,
      60, 100,
      13, 3,
      0x6B, 0x75, 0x64, 0x75, 0x63, 0x66, 0x6C, 0x21, 2, 0, 0, 0]"

definition skewed_iterator :: "(bytes, BlockPointer, bytes \<times> u32) CFileIterator" where
  "skewed_iterator =
     new_CFileIterator example_cursor (example_reader\<lparr>file_Read := mem_file skewed_bytes\<rparr>)
       \<lparr>ptr_offset = 13, ptr_size = 3\<rparr>"

text \<open>
  A decoder like the one of the example, but a relative seek to a position outside the
  block stops at the last entry of the block.
\<close>

definition clamping_decoder :: "(bytes \<times> u32) IntBlockDecoder" where
  "clamping_decoder =
     example_decoder
       \<lparr>SeekToPositionInBlock :=
          (\<lambda>d n. (fst d, if n < ucast (fst d ! 1) then n else ucast (fst d ! 1) - 1))\<rparr>"

section \<open>Properties\<close>

subsection \<open>The preamble\<close>

lemma length_kMagicString: "length kMagicString = 8"
  by (simp add: kMagicString_def)

lemma drop8_of_12:
  assumes "length (data :: bytes) = 12"
  shows "drop 8 data = [data ! 8, data ! 9, data ! 10, data ! 11]"
proof (rule nth_equalityI)
  show "length (drop 8 data) = length [data ! 8, data ! 9, data ! 10, data ! 11]"
    using assms by simp
next
  fix i assume "i < length (drop 8 data)"
  then have "i < 4" using assms by simp
  then have "i = 0 \<or> i = 1 \<or> i = 2 \<or> i = 3" by arith
  then show "drop 8 data ! i = [data ! 8, data ! 9, data ! 10, data ! 11] ! i"
    using assms by (elim disjE) simp_all
qed

lemma byte_lt: "unat (b :: byte) < 256"
  using unsigned_less [of b, where 'a=nat] by simp

lemma trailing_le32_lt: "trailing_le32 data < 4294967296"
  unfolding trailing_le32_def
  using byte_lt [of "data ! 8"] byte_lt [of "data ! 9"] byte_lt [of "data ! 10"]
    byte_lt [of "data ! 11"]
  by linarith

lemma unat_of_nat_u32: "n < 4294967296 \<Longrightarrow> unat (of_nat n :: u32) = n"
  by (simp add: unat_of_nat)

lemma unat_trailing: "unat (of_nat (trailing_le32 data) :: u32) = trailing_le32 data"
  by (rule unat_of_nat_u32 [OF trailing_le32_lt])

lemma DecodeFixed32_drop8:
  assumes "length (data :: bytes) = 12"
  shows "DecodeFixed32 (drop 8 data) = of_nat (trailing_le32 data)"
  unfolding drop8_of_12 [OF assms] trailing_le32_def by (rule DecodeFixed32.simps(1))

lemma of_nat_trailing_0:
  "(of_nat (trailing_le32 data) :: u32) = 0 \<longleftrightarrow> trailing_le32 data = 0"
proof
  assume "(of_nat (trailing_le32 data) :: u32) = 0"
  then have "unat (of_nat (trailing_le32 data) :: u32) = 0" by simp
  then show "trailing_le32 data = 0" by (simp only: unat_trailing)
next
  assume "trailing_le32 data = 0"
  then show "(of_nat (trailing_le32 data) :: u32) = 0" by simp
qed

lemma ParseMagicAndLength_12:
  assumes "length data = 12"
  shows "ParseMagicAndLength data l =
     (if take 8 data \<noteq> kMagicString then (Corruption ''bad magic'', l)
      else if trailing_le32 data = 0 \<or> trailing_le32 data > 65536
        then (Corruption ''invalid data size'', of_nat (trailing_le32 data))
      else (OK, of_nat (trailing_le32 data)))"
  using assms
  by (simp add: ParseMagicAndLength_def kMagicAndLengthSize_def length_kMagicString Let_def
        DecodeFixed32_drop8 kMaxHeaderFooterPBSize_def unat_trailing of_nat_trailing_0)

lemma ParseMagicAndLength_not_12:
  assumes "length data \<noteq> 12"
  shows "ParseMagicAndLength data l = (Corruption ''Bad size data'', l)"
  using assms by (simp add: ParseMagicAndLength_def kMagicAndLengthSize_def)

text \<open>
  Claim C3. \<^verbatim>\<open>ParseMagicAndLength\<close> returns a Corruption status for every input that is
  not exactly 12 bytes long, or whose first 8 bytes are not the magic, or whose trailing
  little-endian 32-bit length is 0 or greater than 65536. For every other 12-byte input
  it returns OK and the decoded length.
\<close>

theorem ParseMagicAndLength_rejects_or_decodes:
  "(length data \<noteq> 12 \<or> take 8 data \<noteq> kMagicString \<or> trailing_le32 data = 0 \<or>
    trailing_le32 data > 65536
      \<longrightarrow> (\<exists>msg. fst (ParseMagicAndLength data l) = Corruption msg))
   \<and> (length data = 12 \<and> take 8 data = kMagicString \<and> 0 < trailing_le32 data \<and>
      trailing_le32 data \<le> 65536
      \<longrightarrow> (\<exists>len. ParseMagicAndLength data l = (OK, len) \<and> unat len = trailing_le32 data))"
proof (cases "length data = 12")
  case False
  then show ?thesis by (simp add: ParseMagicAndLength_not_12)
next
  case True
  show ?thesis by (simp add: ParseMagicAndLength_12 [OF True] True unat_trailing)
qed

theorem ParseMagicAndLength_rejects_or_decodes_witness:
  "(\<exists>msg. fst (ParseMagicAndLength (kMagicString @ [0, 0, 0, 0]) 7) = Corruption msg)
   \<and> (\<exists>len. ParseMagicAndLength (kMagicString @ [1, 0, 0, 0]) 7 = (OK, len) \<and> unat len = 1)"
proof -
  have bad: "trailing_le32 (kMagicString @ [0, 0, 0, 0]) = 0"
    by (simp add: trailing_le32_def kMagicString_def)
  have good: "length (kMagicString @ [1, 0, 0, 0]) = 12 \<and>
      take 8 (kMagicString @ [1, 0, 0, 0]) = kMagicString \<and>
      0 < trailing_le32 (kMagicString @ [1, 0, 0, 0]) \<and>
      trailing_le32 (kMagicString @ [1, 0, 0, 0]) \<le> 65536"
    by (simp add: trailing_le32_def kMagicString_def)
  have one: "trailing_le32 (kMagicString @ [1, 0, 0, 0]) = 1"
    by (simp add: trailing_le32_def kMagicString_def)
  from ParseMagicAndLength_rejects_or_decodes [of "kMagicString @ [0, 0, 0, 0]" 7] bad
  have a: "\<exists>msg. fst (ParseMagicAndLength (kMagicString @ [0, 0, 0, 0]) 7) = Corruption msg"
    by blast
  from ParseMagicAndLength_rejects_or_decodes [of "kMagicString @ [1, 0, 0, 0]" 7] good
  have "\<exists>len. ParseMagicAndLength (kMagicString @ [1, 0, 0, 0]) 7 = (OK, len) \<and>
      unat len = trailing_le32 (kMagicString @ [1, 0, 0, 0])"
    by blast
  with one a show ?thesis by simp
qed

subsection \<open>ReadBlock\<close>

lemma unat_ucast_32_64: "unat (ucast (x :: u32) :: u64) = unat x"
proof -
  have "unat x < 2 ^ 32" using unsigned_less [of x, where 'a=nat] by simp
  then have "unat x < 2 ^ 64" by simp
  then show ?thesis by (simp add: unsigned_ucast_eq take_bit_nat_eq_self)
qed

lemma in_bounds_check:
  "(ptr_offset ptr > 0 \<and> ptr_offset ptr + ucast (ptr_size ptr) < file_size r) \<longleftrightarrow>
     (0 < unat (ptr_offset ptr) \<and>
      (unat (ptr_offset ptr) + unat (ptr_size ptr)) mod 2 ^ 64 < unat (file_size r))"
  by (simp add: word_less_nat_alt unat_word_ariths unat_ucast_32_64)

lemma ReadBlock_Aborted_iff:
  "ReadBlock r ptr ret = Aborted \<longleftrightarrow>
     state r \<noteq> kInitialized \<or>
     \<not> (ptr_offset ptr > 0 \<and> ptr_offset ptr + ucast (ptr_size ptr) < file_size r)"
  by (simp add: ReadBlock_def split: prod.splits)

lemma ReadBlock_checked:
  assumes "state r = kInitialized"
    and "ptr_offset ptr > 0 \<and> ptr_offset ptr + ucast (ptr_size ptr) < file_size r"
  shows "ReadBlock r ptr ret =
     (case file_Read r (ptr_offset ptr) (unat (ptr_size ptr)) of
        (st, s) \<Rightarrow>
          if st \<noteq> OK then Returned (st, ret)
          else if length s \<noteq> unat (ptr_size ptr)
            then Returned (IOError ''Could not read full block length'', ret)
          else Returned (OK, s))"
  using assms by (simp add: ReadBlock_def)

text \<open>
  Claim C9. The bounds test of \<^verbatim>\<open>ReadBlock\<close> adds offset and size modulo \<open>2^64\<close>: the
  run goes on exactly when the reader is initialized, the offset is positive and
  \<open>(offset + size) mod 2^64 < file_size\<close>. For the pointer with offset \<open>2^64 - 1\<close> and
  size 2 the sum wraps to 1, so the test passes on the 35-byte example file although the
  range lies outside the file.
\<close>

theorem ReadBlock_check_wraps:
  "(ReadBlock r ptr ret \<noteq> Aborted \<longleftrightarrow>
      state r = kInitialized \<and> 0 < unat (ptr_offset ptr) \<and>
      (unat (ptr_offset ptr) + unat (ptr_size ptr)) mod 2 ^ 64 < unat (file_size r))
   \<and> ReadBlock example_reader \<lparr>ptr_offset = 18446744073709551615, ptr_size = 2\<rparr> [] \<noteq> Aborted
   \<and> unat (file_size example_reader) < unat (18446744073709551615 :: u64) + unat (2 :: u32)"
proof -
  have a: "ReadBlock r ptr ret \<noteq> Aborted \<longleftrightarrow>
      state r = kInitialized \<and> 0 < unat (ptr_offset ptr) \<and>
      (unat (ptr_offset ptr) + unat (ptr_size ptr)) mod 2 ^ 64 < unat (file_size r)"
    unfolding ReadBlock_Aborted_iff in_bounds_check by blast
  have b: "ReadBlock example_reader \<lparr>ptr_offset = 18446744073709551615, ptr_size = 2\<rparr> [] \<noteq> Aborted"
    unfolding ReadBlock_Aborted_iff by (simp add: example_reader_def)
  have c: "unat (file_size example_reader) < unat (18446744073709551615 :: u64) + unat (2 :: u32)"
    by (simp add: example_reader_def)
  from a b c show ?thesis by blast
qed


lemma example_read_13: "mem_file example_bytes 13 3 = (OK, [0, 16, 3])"
  by (simp add: mem_file_def example_bytes_def)

text \<open>
  Claim C2, amended. On an initialized reader, for a pointer with \<open>offset > 0\<close> and
  \<open>offset + size < file_size\<close> (as numbers), \<^verbatim>\<open>ReadBlock\<close> issues one read of \<open>size\<close>
  bytes at \<open>offset\<close>; it returns the status of that read if it is not OK, an I/O error
  if the slice read has not exactly \<open>size\<close> bytes, and otherwise OK with that slice.
  For a pointer with offset 0, or with \<open>file_size \<le> offset + size < 2^64\<close>, the run
  is aborted. (Nothing is said here about a pointer whose \<open>offset + size\<close> reaches
  \<open>2^64\<close>.)
\<close>

theorem ReadBlock_outcomes:
  assumes "state r = kInitialized"
  shows "(0 < unat (ptr_offset ptr) \<and> unat (ptr_offset ptr) + unat (ptr_size ptr) < unat (file_size r) \<longrightarrow>
           (\<forall>st s. file_Read r (ptr_offset ptr) (unat (ptr_size ptr)) = (st, s) \<longrightarrow>
              (st \<noteq> OK \<longrightarrow> ReadBlock r ptr ret = Returned (st, ret)) \<and>
              (st = OK \<and> length s \<noteq> unat (ptr_size ptr) \<longrightarrow>
                 ReadBlock r ptr ret = Returned (IOError ''Could not read full block length'', ret)) \<and>
              (st = OK \<and> length s = unat (ptr_size ptr) \<longrightarrow> ReadBlock r ptr ret = Returned (OK, s))))
       \<and> (unat (ptr_offset ptr) = 0 \<or>
            (unat (file_size r) \<le> unat (ptr_offset ptr) + unat (ptr_size ptr) \<and>
             unat (ptr_offset ptr) + unat (ptr_size ptr) < 2 ^ 64)
           \<longrightarrow> ReadBlock r ptr ret = Aborted)"
proof (intro conjI impI)
  assume a: "0 < unat (ptr_offset ptr) \<and> unat (ptr_offset ptr) + unat (ptr_size ptr) < unat (file_size r)"
  have "unat (file_size r) < 2 ^ 64" using unsigned_less [of "file_size r", where 'a=nat] by simp
  with a have "(unat (ptr_offset ptr) + unat (ptr_size ptr)) mod 2 ^ 64 < unat (file_size r)"
    by simp
  with a have chk: "ptr_offset ptr > 0 \<and> ptr_offset ptr + ucast (ptr_size ptr) < file_size r"
    unfolding in_bounds_check by simp
  show "\<forall>st s. file_Read r (ptr_offset ptr) (unat (ptr_size ptr)) = (st, s) \<longrightarrow>
              (st \<noteq> OK \<longrightarrow> ReadBlock r ptr ret = Returned (st, ret)) \<and>
              (st = OK \<and> length s \<noteq> unat (ptr_size ptr) \<longrightarrow>
                 ReadBlock r ptr ret = Returned (IOError ''Could not read full block length'', ret)) \<and>
              (st = OK \<and> length s = unat (ptr_size ptr) \<longrightarrow> ReadBlock r ptr ret = Returned (OK, s))"
    by (simp add: ReadBlock_checked [OF assms chk])
next
  assume b: "unat (ptr_offset ptr) = 0 \<or>
            (unat (file_size r) \<le> unat (ptr_offset ptr) + unat (ptr_size ptr) \<and>
             unat (ptr_offset ptr) + unat (ptr_size ptr) < 2 ^ 64)"
  then have "\<not> (0 < unat (ptr_offset ptr) \<and>
      (unat (ptr_offset ptr) + unat (ptr_size ptr)) mod 2 ^ 64 < unat (file_size r))"
    by auto
  then show "ReadBlock r ptr ret = Aborted"
    unfolding ReadBlock_Aborted_iff in_bounds_check by simp
qed

theorem ReadBlock_outcomes_witness:
  "ReadBlock example_reader \<lparr>ptr_offset = 13, ptr_size = 3\<rparr> [] = Returned (OK, [0, 16, 3])
   \<and> ReadBlock example_reader \<lparr>ptr_offset = 0, ptr_size = 3\<rparr> [] = Aborted
   \<and> ReadBlock example_reader \<lparr>ptr_offset = 33, ptr_size = 2\<rparr> [] = Aborted"
proof -
  have i: "state example_reader = kInitialized" by (simp add: example_reader_def)
  have rd: "file_Read example_reader (ptr_offset \<lparr>ptr_offset = 13, ptr_size = 3\<rparr>)
      (unat (ptr_size \<lparr>ptr_offset = 13, ptr_size = 3\<rparr>)) = (OK, [0, 16, 3])"
    by (simp add: example_reader_def example_read_13)
  have a: "ReadBlock example_reader \<lparr>ptr_offset = 13, ptr_size = 3\<rparr> [] = Returned (OK, [0, 16, 3])"
    using ReadBlock_outcomes [OF i, of "\<lparr>ptr_offset = 13, ptr_size = 3\<rparr>" "[]"] rd
    by (simp add: example_reader_def)
  have b: "ReadBlock example_reader \<lparr>ptr_offset = 0, ptr_size = 3\<rparr> [] = Aborted"
    using ReadBlock_outcomes [OF i, of "\<lparr>ptr_offset = 0, ptr_size = 3\<rparr>" "[]"] by simp
  have c: "ReadBlock example_reader \<lparr>ptr_offset = 33, ptr_size = 2\<rparr> [] = Aborted"
    using ReadBlock_outcomes [OF i, of "\<lparr>ptr_offset = 33, ptr_size = 2\<rparr>" "[]"]
    by (simp add: example_reader_def)
  from a b c show ?thesis by blast
qed

text \<open>
  Claim C2 as stated fails: a reader whose file answers every read with a Corruption
  status is initialized, the pointer (13, 3) lies strictly inside its 35 bytes, and
  \<^verbatim>\<open>ReadBlock\<close> returns neither a block nor an I/O error but that Corruption status.
\<close>

theorem ReadBlock_read_failure_counterexample:
  "state (example_reader\<lparr>file_Read := (\<lambda>off n. (Corruption ''checksum'', []))\<rparr>) = kInitialized
   \<and> 0 < unat (13 :: u64)
   \<and> unat (13 :: u64) + unat (3 :: u32)
       < unat (file_size (example_reader\<lparr>file_Read := (\<lambda>off n. (Corruption ''checksum'', []))\<rparr>))
   \<and> ReadBlock (example_reader\<lparr>file_Read := (\<lambda>off n. (Corruption ''checksum'', []))\<rparr>)
        \<lparr>ptr_offset = 13, ptr_size = 3\<rparr> [] = Returned (Corruption ''checksum'', [])"
  by (simp add: example_reader_def ReadBlock_def)


subsection \<open>Init\<close>

lemma ReadMagicAndLength_file:
  assumes "file_Read r' = file_Read r"
  shows "ReadMagicAndLength r' = ReadMagicAndLength r"
  using assms by (simp add: ReadMagicAndLength_def fun_eq_iff)

lemma ReadAndParseHeader_Returned:
  assumes "ReadAndParseHeader E r = Returned (s, r1)"
  shows "state r = kUninitialized \<and> (\<exists>h. r1 = r \<or> r1 = r\<lparr>header := h\<rparr>)"
  using assms
  by (auto simp: ReadAndParseHeader_def Let_def split: if_splits prod.splits)

lemma ReadAndParseFooter_Returned:
  assumes "ReadAndParseFooter E r = Returned (s, r1)"
  shows "state r = kUninitialized \<and> 24 < unat (file_size r) \<and> (\<exists>f. r1 = r\<lparr>footer := Some f\<rparr>)"
  using assms
  by (auto simp: ReadAndParseFooter_def Let_def kMagicAndLengthSize_def split: if_splits prod.splits)

lemma Init_Returned:
  assumes "Init E r = Returned (s, r')"
  shows "state r = kUninitialized \<and>
     (s \<noteq> OK \<longrightarrow> state r' = kUninitialized) \<and>
     (s = OK \<longrightarrow> (\<exists>r1 r2. ReadAndParseHeader E r = Returned (OK, r1) \<and>
        ReadAndParseFooter E r1 = Returned (OK, r2) \<and> r' = r2\<lparr>state := kInitialized\<rparr>))"
proof -
  from assms have u: "state r = kUninitialized"
    by (simp add: Init_def split: if_splits)
  show ?thesis
  proof (cases "ReadAndParseHeader E r")
    case Aborted
    with assms u show ?thesis by (simp add: Init_def)
  next
    case (Returned x)
    obtain s1 r1 where x: "x = (s1, r1)" by (cases x)
    note h = Returned [unfolded x]
    from ReadAndParseHeader_Returned [OF h] have s1: "state r1 = kUninitialized" by auto
    show ?thesis
    proof (cases "s1 = OK")
      case False
      with assms u h s1 show ?thesis by (simp add: Init_def)
    next
      case True
      show ?thesis
      proof (cases "ReadAndParseFooter E r1")
        case Aborted
        with assms u h True show ?thesis by (simp add: Init_def)
      next
        case (Returned y)
        obtain s2 r2 where y: "y = (s2, r2)" by (cases y)
        note f = Returned [unfolded y]
        from ReadAndParseFooter_Returned [OF f] s1 have s2: "state r2 = kUninitialized" by auto
        from assms u h True f s2 show ?thesis by (auto simp: Init_def split: if_splits)
      qed
    qed
  qed
qed

lemma Init_not_Uninitialized: "state r \<noteq> kUninitialized \<Longrightarrow> Init E r = Aborted"
  by (simp add: Init_def)


lemma ReadAndParseHeader_footer_upd:
  "ReadAndParseHeader E (r\<lparr>footer := f\<rparr>) =
     (case ReadAndParseHeader E r of
        Aborted \<Rightarrow> Aborted
      | Returned (s, r1) \<Rightarrow> Returned (s, r1\<lparr>footer := f\<rparr>))"
  by (simp add: ReadAndParseHeader_def Let_def ReadMagicAndLength_file [of "r\<lparr>footer := f\<rparr>" r]
        split: prod.splits)

lemma ReadAndParseFooter_footer_upd:
  "ReadAndParseFooter E (r\<lparr>footer := f\<rparr>) = ReadAndParseFooter E r"
  by (simp add: ReadAndParseFooter_def Let_def ReadMagicAndLength_file [of "r\<lparr>footer := f\<rparr>" r])

lemma ReadAndParseHeader_idem:
  assumes "ReadAndParseHeader E r = Returned (s, r1)"
  shows "ReadAndParseHeader E r1 = Returned (s, r1)"
proof -
  have m: "\<And>h. ReadMagicAndLength (r\<lparr>header := h\<rparr>) = ReadMagicAndLength r"
    by (rule ReadMagicAndLength_file) simp
  from assms show ?thesis
    by (auto simp: ReadAndParseHeader_def Let_def m split: if_splits prod.splits)
qed

lemma ReadAndParseFooter_idem:
  assumes "ReadAndParseFooter E r = Returned (s, r2)"
  shows "ReadAndParseFooter E r2 = Returned (s, r2)"
proof -
  from ReadAndParseFooter_Returned [OF assms] obtain f where r2: "r2 = r\<lparr>footer := Some f\<rparr>"
    by blast
  have "ReadAndParseFooter E r2 = Returned (s, r2)"
    unfolding r2 ReadAndParseFooter_footer_upd using assms r2 by simp
  then show ?thesis .
qed

text \<open>
  Claim C10. When \<^verbatim>\<open>Init()\<close> returns an error, the state of the reader is still
  Uninitialized, and a second \<^verbatim>\<open>Init()\<close> on that reader does not trip the state check:
  it returns the same error and leaves the same reader.
\<close>

theorem Init_failure_keeps_Uninitialized:
  assumes "Init E r = Returned (s, r')" and "s \<noteq> OK"
  shows "state r' = kUninitialized \<and> Init E r' = Returned (s, r')"
proof -
  from Init_Returned [OF assms(1)] assms(2)
  have u: "state r = kUninitialized" and u': "state r' = kUninitialized" by auto
  have "Init E r' = Returned (s, r')"
  proof (cases "ReadAndParseHeader E r")
    case Aborted
    with assms u show ?thesis by (simp add: Init_def)
  next
    case (Returned x)
    obtain s1 r1 where x: "x = (s1, r1)" by (cases x)
    note h = Returned [unfolded x]
    show ?thesis
    proof (cases "s1 = OK")
      case False
      with assms(1) u h have "s = s1" "r' = r1" by (simp_all add: Init_def)
      with ReadAndParseHeader_idem [OF h] u' False show ?thesis by (simp add: Init_def)
    next
      case True
      show ?thesis
      proof (cases "ReadAndParseFooter E r1")
        case Aborted
        with assms u h True show ?thesis by (simp add: Init_def)
      next
        case (Returned y)
        obtain s2 r2 where y: "y = (s2, r2)" by (cases y)
        note f = Returned [unfolded y]
        from assms u h True f have e: "s = s2" "r' = r2" by (auto simp: Init_def split: if_splits)
        from ReadAndParseFooter_Returned [OF f] obtain ft where r2: "r2 = r1\<lparr>footer := Some ft\<rparr>"
          by blast
        have hh: "ReadAndParseHeader E r2 = Returned (OK, r2)"
          unfolding r2 ReadAndParseHeader_footer_upd
          using ReadAndParseHeader_idem [OF h] True by simp
        from hh ReadAndParseFooter_idem [OF f] u' e assms(2) show ?thesis
          by (simp add: Init_def)
      qed
    qed
  qed
  with u' show ?thesis by simp
qed


lemmas Init_eval =
  Init_def ReadAndParseHeader_def ReadAndParseFooter_def ReadMagicAndLength_def
  ParseMagicAndLength_def new_CFileReader_def mem_file_def example_env_def
  kMagicAndLengthSize_def kMagicString_def kMaxHeaderFooterPBSize_def Let_def
  example_footer_parse_def

lemma example_Init:
  "Init example_env (new_CFileReader (mem_file example_bytes) 35) = Returned (OK, example_reader)"
  by (simp add: Init_eval example_bytes_def example_reader_def)

lemma zero_footer_preamble:
  "ReadMagicAndLength (new_CFileReader (mem_file zero_footer_bytes) 25 :: bytes CFileReader) 13 0
     = (Corruption ''invalid data size'', 0)"
  by (simp add: Init_eval zero_footer_bytes_def)

lemma zero_footer_Init:
  "Init example_env (new_CFileReader (mem_file zero_footer_bytes) 25) =
     Returned (OK, \<lparr>file_Read = mem_file zero_footer_bytes, file_size = 25,
       state = kInitialized, header = Some [0x48], footer = Some \<lparr>btrees = []\<rparr>\<rparr>)"
  by (simp add: Init_eval zero_footer_bytes_def)

lemma bad_footer_Init:
  "Init example_env (new_CFileReader (mem_file bad_footer_bytes) 26) =
     Returned (Corruption ''Invalid cfile pb footer'',
       \<lparr>file_Read = mem_file bad_footer_bytes, file_size = 26,
        state = kUninitialized, header = Some [0x48], footer = Some \<lparr>btrees = []\<rparr>\<rparr>)"
  by (simp add: Init_eval bad_footer_bytes_def)


lemma zero_footer_Init_reject:
  "Init (example_env\<lparr>footer_ParseFromArray := (\<lambda>bs n. (False, \<lparr>btrees = []\<rparr>))\<rparr>)
       (new_CFileReader (mem_file zero_footer_bytes) 25) =
     Returned (Corruption ''Invalid cfile pb footer'',
       \<lparr>file_Read = mem_file zero_footer_bytes, file_size = 25,
        state = kUninitialized, header = Some [0x48], footer = Some \<lparr>btrees = []\<rparr>\<rparr>)"
  by (simp add: Init_eval zero_footer_bytes_def)


text \<open>
  Claim C1, evaluated on the 25-byte file whose footer preamble holds the length 0:
  reading and decoding that preamble fails with ``invalid data size'', and \<^verbatim>\<open>Init()\<close>
  goes on with the length 0 and reads an empty footer. With a footer parser that accepts
  the empty footer it returns OK with the reader Initialized; with one that rejects it,
  it returns ``Invalid cfile pb footer''. Neither is the failure of the preamble.
\<close>

theorem Init_drops_footer_preamble_failure:
  "fst (ReadMagicAndLength (new_CFileReader (mem_file zero_footer_bytes) 25 :: bytes CFileReader)
          (25 - 12) (footer_size_uninit example_env)) = Corruption ''invalid data size''
   \<and> Init example_env (new_CFileReader (mem_file zero_footer_bytes) 25) =
     Returned (OK, \<lparr>file_Read = mem_file zero_footer_bytes, file_size = 25,
       state = kInitialized, header = Some [0x48], footer = Some \<lparr>btrees = []\<rparr>\<rparr>)
   \<and> Init (example_env\<lparr>footer_ParseFromArray := (\<lambda>bs n. (False, \<lparr>btrees = []\<rparr>))\<rparr>)
       (new_CFileReader (mem_file zero_footer_bytes) 25) =
     Returned (Corruption ''Invalid cfile pb footer'',
       \<lparr>file_Read = mem_file zero_footer_bytes, file_size = 25,
        state = kUninitialized, header = Some [0x48], footer = Some \<lparr>btrees = []\<rparr>\<rparr>)"
  using zero_footer_preamble zero_footer_Init zero_footer_Init_reject
  by (simp add: example_env_def)

lemma SearchPosition_not_Initialized:
  "state r \<noteq> kInitialized \<Longrightarrow> SearchPosition I r pos p k = Some Aborted"
  by (simp add: SearchPosition_def)

lemma Init_both_OK:
  assumes h: "ReadAndParseHeader E r = Returned (OK, r1)"
    and f: "ReadAndParseFooter E r1 = Returned (OK, r2)"
  shows "Init E r = Returned (OK, r2\<lparr>state := kInitialized\<rparr>)"
proof -
  from ReadAndParseHeader_Returned [OF h] have "state r = kUninitialized" by simp
  with h f show ?thesis by (simp add: Init_def)
qed

lemma Init_header_fails:
  assumes h: "ReadAndParseHeader E r = Returned (s, r1)" and s: "s \<noteq> OK"
  shows "Init E r = Returned (s, r1)"
proof -
  from ReadAndParseHeader_Returned [OF h] have "state r = kUninitialized" by simp
  with h s show ?thesis by (simp add: Init_def)
qed

lemma Init_footer_fails:
  assumes h: "ReadAndParseHeader E r = Returned (OK, r1)"
    and f: "ReadAndParseFooter E r1 = Returned (s, r2)" and s: "s \<noteq> OK"
  shows "Init E r = Returned (s, r2)"
proof -
  from ReadAndParseHeader_Returned [OF h] have "state r = kUninitialized" by simp
  with h f s show ?thesis by (simp add: Init_def)
qed

lemma example_header:
  "ReadAndParseHeader example_env (new_CFileReader (mem_file example_bytes) 35) =
     Returned (OK, \<lparr>file_Read = mem_file example_bytes, file_size = 35,
       state = kUninitialized, header = Some [0x48], footer = None\<rparr>)"
  by (simp add: Init_eval example_bytes_def)

lemma example_footer:
  "ReadAndParseFooter example_env
     \<lparr>file_Read = mem_file example_bytes, file_size = 35,
       state = kUninitialized, header = Some [0x48], footer = None\<rparr> =
     Returned (OK, example_reader\<lparr>state := kUninitialized\<rparr>)"
  by (simp add: Init_eval example_bytes_def example_reader_def)

text \<open>
  Claim C6. A reader is created Uninitialized. \<^verbatim>\<open>Init()\<close> is aborted unless the state
  is Uninitialized. When the header and then the footer are parsed with OK, \<^verbatim>\<open>Init()\<close>
  returns OK and the reader it leaves is Initialized; when one of the two returns an
  error, \<^verbatim>\<open>Init()\<close> returns that error. Whenever \<^verbatim>\<open>Init()\<close> returns, the state it leaves
  is Initialized exactly if it returned OK, which it does only after the header and the
  footer were both parsed, and a second \<^verbatim>\<open>Init()\<close> is then aborted. \<^verbatim>\<open>ReadBlock\<close> and
  \<^verbatim>\<open>SearchPosition\<close> are aborted on a reader that is not Initialized.
\<close>

theorem reader_lifecycle:
  "state (new_CFileReader f n) = kUninitialized
   \<and> (state r \<noteq> kUninitialized \<longrightarrow> Init E r = Aborted)
   \<and> (\<forall>r1 r2. ReadAndParseHeader E r = Returned (OK, r1) \<and>
         ReadAndParseFooter E r1 = Returned (OK, r2) \<longrightarrow>
         Init E r = Returned (OK, r2\<lparr>state := kInitialized\<rparr>) \<and>
         state (r2\<lparr>state := kInitialized\<rparr>) = kInitialized)
   \<and> (\<forall>s r1. ReadAndParseHeader E r = Returned (s, r1) \<and> s \<noteq> OK \<longrightarrow>
         Init E r = Returned (s, r1))
   \<and> (\<forall>s r1 r2. ReadAndParseHeader E r = Returned (OK, r1) \<and>
         ReadAndParseFooter E r1 = Returned (s, r2) \<and> s \<noteq> OK \<longrightarrow>
         Init E r = Returned (s, r2))
   \<and> (\<forall>s r'. Init E r = Returned (s, r') \<longrightarrow>
         state r = kUninitialized \<and> (state r' = kInitialized \<longleftrightarrow> s = OK) \<and>
         (s = OK \<longrightarrow>
            (\<exists>r1 r2. ReadAndParseHeader E r = Returned (OK, r1) \<and>
               ReadAndParseFooter E r1 = Returned (OK, r2) \<and> r' = r2\<lparr>state := kInitialized\<rparr>) \<and>
            Init E r' = Aborted))
   \<and> (state r \<noteq> kInitialized \<longrightarrow>
         ReadBlock r ptr ret = Aborted \<and> SearchPosition I r pos p k = Some Aborted)"
proof -
  have a: "state (new_CFileReader f n) = kUninitialized" by (simp add: new_CFileReader_def)
  have b: "state r \<noteq> kUninitialized \<longrightarrow> Init E r = Aborted"
    using Init_not_Uninitialized by blast
  have c: "\<forall>r1 r2. ReadAndParseHeader E r = Returned (OK, r1) \<and>
         ReadAndParseFooter E r1 = Returned (OK, r2) \<longrightarrow>
         Init E r = Returned (OK, r2\<lparr>state := kInitialized\<rparr>) \<and>
         state (r2\<lparr>state := kInitialized\<rparr>) = kInitialized"
    by (simp add: Init_both_OK)
  have d: "\<forall>s r1. ReadAndParseHeader E r = Returned (s, r1) \<and> s \<noteq> OK \<longrightarrow>
         Init E r = Returned (s, r1)"
    using Init_header_fails by blast
  have e: "\<forall>s r1 r2. ReadAndParseHeader E r = Returned (OK, r1) \<and>
         ReadAndParseFooter E r1 = Returned (s, r2) \<and> s \<noteq> OK \<longrightarrow>
         Init E r = Returned (s, r2)"
    using Init_footer_fails by blast
  have g: "\<forall>s r'. Init E r = Returned (s, r') \<longrightarrow>
         state r = kUninitialized \<and> (state r' = kInitialized \<longleftrightarrow> s = OK) \<and>
         (s = OK \<longrightarrow>
            (\<exists>r1 r2. ReadAndParseHeader E r = Returned (OK, r1) \<and>
               ReadAndParseFooter E r1 = Returned (OK, r2) \<and> r' = r2\<lparr>state := kInitialized\<rparr>) \<and>
            Init E r' = Aborted)"
  proof (intro allI impI)
    fix s r' assume i: "Init E r = Returned (s, r')"
    note R = Init_Returned [OF i]
    from R have 1: "state r = kUninitialized" by simp
    from R have 2: "state r' = kInitialized \<longleftrightarrow> s = OK" by auto
    have 3: "s = OK \<longrightarrow>
            (\<exists>r1 r2. ReadAndParseHeader E r = Returned (OK, r1) \<and>
               ReadAndParseFooter E r1 = Returned (OK, r2) \<and> r' = r2\<lparr>state := kInitialized\<rparr>) \<and>
            Init E r' = Aborted"
    proof
      assume ok: "s = OK"
      with R have x: "\<exists>r1 r2. ReadAndParseHeader E r = Returned (OK, r1) \<and>
          ReadAndParseFooter E r1 = Returned (OK, r2) \<and> r' = r2\<lparr>state := kInitialized\<rparr>"
        by simp
      then have "state r' \<noteq> kUninitialized" by auto
      then have "Init E r' = Aborted" by (rule Init_not_Uninitialized)
      with x show "(\<exists>r1 r2. ReadAndParseHeader E r = Returned (OK, r1) \<and>
          ReadAndParseFooter E r1 = Returned (OK, r2) \<and> r' = r2\<lparr>state := kInitialized\<rparr>) \<and>
          Init E r' = Aborted" by simp
    qed
    from 1 2 3 show "state r = kUninitialized \<and> (state r' = kInitialized \<longleftrightarrow> s = OK) \<and>
         (s = OK \<longrightarrow>
            (\<exists>r1 r2. ReadAndParseHeader E r = Returned (OK, r1) \<and>
               ReadAndParseFooter E r1 = Returned (OK, r2) \<and> r' = r2\<lparr>state := kInitialized\<rparr>) \<and>
            Init E r' = Aborted)" by blast
  qed
  have h: "state r \<noteq> kInitialized \<longrightarrow>
         ReadBlock r ptr ret = Aborted \<and> SearchPosition I r pos p k = Some Aborted"
    by (simp add: ReadBlock_def SearchPosition_not_Initialized)
  from a b c d e g h show ?thesis by blast
qed

theorem reader_lifecycle_witness:
  "state (new_CFileReader (mem_file example_bytes) 35 :: bytes CFileReader) = kUninitialized
   \<and> Init example_env (new_CFileReader (mem_file example_bytes) 35) = Returned (OK, example_reader)
   \<and> state example_reader = kInitialized
   \<and> Init example_env example_reader = Aborted
   \<and> ReadBlock (new_CFileReader (mem_file example_bytes) 35 :: bytes CFileReader)
        \<lparr>ptr_offset = 13, ptr_size = 3\<rparr> [] = Aborted
   \<and> SearchPosition example_index (new_CFileReader (mem_file example_bytes) 35 :: bytes CFileReader)
        5 default_BlockPointer 0 = Some Aborted"
proof -
  let ?r0 = "new_CFileReader (mem_file example_bytes) 35 :: bytes CFileReader"
  note c = reader_lifecycle [of "mem_file example_bytes" 35 ?r0 example_env
      "\<lparr>ptr_offset = 13, ptr_size = 3\<rparr>" "[]" example_index 5 default_BlockPointer 0]
  have u: "state ?r0 \<noteq> kInitialized" by (simp add: new_CFileReader_def)
  have e: "example_reader\<lparr>state := kUninitialized, state := kInitialized\<rparr> = example_reader"
    by (simp add: example_reader_def)
  from c have 1: "state ?r0 = kUninitialized" by blast
  from c example_header example_footer
  have "Init example_env ?r0 =
      Returned (OK, example_reader\<lparr>state := kUninitialized, state := kInitialized\<rparr>)"
    by blast
  then have i: "Init example_env ?r0 = Returned (OK, example_reader)" unfolding e .
  from c i have 2: "state example_reader = kInitialized \<and> Init example_env example_reader = Aborted"
    by blast
  from c u have 3: "ReadBlock ?r0 \<lparr>ptr_offset = 13, ptr_size = 3\<rparr> [] = Aborted \<and>
      SearchPosition example_index ?r0 5 default_BlockPointer 0 = Some Aborted"
    by blast
  from 1 2 3 i show ?thesis by blast
qed

theorem Init_failure_keeps_Uninitialized_witness:
  "Init example_env (new_CFileReader (mem_file bad_footer_bytes) 26) =
     Returned (Corruption ''Invalid cfile pb footer'',
       \<lparr>file_Read = mem_file bad_footer_bytes, file_size = 26,
        state = kUninitialized, header = Some [0x48], footer = Some \<lparr>btrees = []\<rparr>\<rparr>)
   \<and> state \<lparr>file_Read = mem_file bad_footer_bytes, file_size = 26,
        state = kUninitialized, header = Some [0x48 :: byte], footer = Some \<lparr>btrees = []\<rparr>\<rparr>
       = kUninitialized
   \<and> Init example_env \<lparr>file_Read = mem_file bad_footer_bytes, file_size = 26,
        state = kUninitialized, header = Some [0x48], footer = Some \<lparr>btrees = []\<rparr>\<rparr> =
     Returned (Corruption ''Invalid cfile pb footer'',
       \<lparr>file_Read = mem_file bad_footer_bytes, file_size = 26,
        state = kUninitialized, header = Some [0x48], footer = Some \<lparr>btrees = []\<rparr>\<rparr>)"
  using Init_failure_keeps_Uninitialized [OF bad_footer_Init] bad_footer_Init by simp


subsection \<open>Named index roots\<close>

lemma loop_none:
  "(\<forall>x\<in>set bs. metadata_identifier x \<noteq> ident) \<Longrightarrow>
     GetIndexRootBlock_loop bs ident ptr = (NotFound ''no such index'', ptr)"
  by (induction bs) simp_all

lemma loop_first:
  "(\<forall>x\<in>set pre. metadata_identifier x \<noteq> ident) \<Longrightarrow> metadata_identifier info = ident \<Longrightarrow>
     GetIndexRootBlock_loop (pre @ info # post) ident ptr = (OK, root_block info)"
  by (induction pre) simp_all

lemma loop_OK_any:
  "GetIndexRootBlock_loop bs ident p1 = (OK, q) \<Longrightarrow> GetIndexRootBlock_loop bs ident p2 = (OK, q)"
  by (induction bs) (simp_all split: if_splits)

lemma Init_OK_footer:
  assumes "Init E r0 = Returned (OK, r)"
  shows "state r = kInitialized \<and> (\<exists>f. footer r = Some f)"
proof -
  from Init_Returned [OF assms] obtain r1 r2 where
    f: "ReadAndParseFooter E r1 = Returned (OK, r2)" and r: "r = r2\<lparr>state := kInitialized\<rparr>"
    by auto
  from ReadAndParseFooter_Returned [OF f] r show ?thesis by auto
qed

text \<open>
  Claim C7. On a reader that \<^verbatim>\<open>Init()\<close> has initialized, \<^verbatim>\<open>GetIndexRootBlock\<close> returns
  NotFound when no descriptor of the footer has the identifier, and otherwise the root
  block of the first descriptor that has it; two calls with the same identifier return
  the same pointer.
\<close>

theorem GetIndexRootBlock_first_match:
  assumes "Init E r0 = Returned (OK, r)"
  shows "\<exists>f. footer r = Some f \<and>
     ((\<forall>info\<in>set (btrees f). metadata_identifier info \<noteq> ident) \<longrightarrow>
        (\<forall>ptr. GetIndexRootBlock r ident ptr = Returned (NotFound ''no such index'', ptr))) \<and>
     (\<forall>pre info post.
        btrees f = pre @ info # post \<and> metadata_identifier info = ident \<and>
        (\<forall>x\<in>set pre. metadata_identifier x \<noteq> ident) \<longrightarrow>
        (\<forall>ptr. GetIndexRootBlock r ident ptr = Returned (OK, root_block info))) \<and>
     (\<forall>ptr1 ptr2 q1 s2 q2.
        GetIndexRootBlock r ident ptr1 = Returned (OK, q1) \<and>
        GetIndexRootBlock r ident ptr2 = Returned (s2, q2) \<longrightarrow> s2 = OK \<and> q2 = q1)"
proof -
  from Init_OK_footer [OF assms] obtain f where f: "footer r = Some f" by blast
  have g: "\<And>ptr. GetIndexRootBlock r ident ptr = Returned (GetIndexRootBlock_loop (btrees f) ident ptr)"
    by (simp add: GetIndexRootBlock_def f)
  have a: "(\<forall>info\<in>set (btrees f). metadata_identifier info \<noteq> ident) \<longrightarrow>
        (\<forall>ptr. GetIndexRootBlock r ident ptr = Returned (NotFound ''no such index'', ptr))"
    by (simp add: g loop_none)
  have b: "\<forall>pre info post.
        btrees f = pre @ info # post \<and> metadata_identifier info = ident \<and>
        (\<forall>x\<in>set pre. metadata_identifier x \<noteq> ident) \<longrightarrow>
        (\<forall>ptr. GetIndexRootBlock r ident ptr = Returned (OK, root_block info))"
    by (simp add: g loop_first)
  have c: "\<forall>ptr1 ptr2 q1 s2 q2.
        GetIndexRootBlock r ident ptr1 = Returned (OK, q1) \<and>
        GetIndexRootBlock r ident ptr2 = Returned (s2, q2) \<longrightarrow> s2 = OK \<and> q2 = q1"
  proof (intro allI impI)
    fix ptr1 ptr2 q1 s2 q2
    assume h: "GetIndexRootBlock r ident ptr1 = Returned (OK, q1) \<and>
        GetIndexRootBlock r ident ptr2 = Returned (s2, q2)"
    then have "GetIndexRootBlock_loop (btrees f) ident ptr1 = (OK, q1)" by (simp add: g)
    from loop_OK_any [OF this, of ptr2] h show "s2 = OK \<and> q2 = q1" by (simp add: g)
  qed
  from f a b c show ?thesis by blast
qed

theorem GetIndexRootBlock_first_match_witness:
  "Init example_env (new_CFileReader (mem_file example_bytes) 35) = Returned (OK, example_reader)
   \<and> GetIndexRootBlock example_reader kPositionalIndexIdentifier default_BlockPointer =
       Returned (OK, \<lparr>ptr_offset = 13, ptr_size = 3\<rparr>)
   \<and> GetIndexRootBlock example_reader ''idx.other'' default_BlockPointer =
       Returned (NotFound ''no such index'', default_BlockPointer)"
proof -
  let ?info = "\<lparr>metadata_identifier = kPositionalIndexIdentifier,
                 root_block = \<lparr>ptr_offset = 13, ptr_size = 3\<rparr>\<rparr>"
  have ft: "footer example_reader = Some \<lparr>btrees = [?info]\<rparr>"
    by (simp add: example_reader_def)
  from GetIndexRootBlock_first_match [OF example_Init, of kPositionalIndexIdentifier] ft
  have 1: "\<forall>pre info post.
        [?info] = pre @ info # post \<and> metadata_identifier info = kPositionalIndexIdentifier \<and>
        (\<forall>x\<in>set pre. metadata_identifier x \<noteq> kPositionalIndexIdentifier) \<longrightarrow>
        (\<forall>ptr. GetIndexRootBlock example_reader kPositionalIndexIdentifier ptr =
           Returned (OK, root_block info))"
    by simp
  have a: "GetIndexRootBlock example_reader kPositionalIndexIdentifier default_BlockPointer =
       Returned (OK, \<lparr>ptr_offset = 13, ptr_size = 3\<rparr>)"
    using 1 [rule_format, of "[]" ?info "[]" default_BlockPointer] by simp
  from GetIndexRootBlock_first_match [OF example_Init, of "''idx.other''"] ft
  have 2: "(\<forall>info\<in>set [?info]. metadata_identifier info \<noteq> ''idx.other'') \<longrightarrow>
        (\<forall>ptr. GetIndexRootBlock example_reader ''idx.other'' ptr =
           Returned (NotFound ''no such index'', ptr))"
    by simp
  have b: "GetIndexRootBlock example_reader ''idx.other'' default_BlockPointer =
       Returned (NotFound ''no such index'', default_BlockPointer)"
    using 2 by (simp add: kPositionalIndexIdentifier_def)
  from a b example_Init show ?thesis by blast
qed


subsection \<open>Descent through the index\<close>

lemma SearchDownward_leaf:
  assumes "idx_visit I rd key (p, k0) = Some (True, c, k1)"
  shows "SearchDownward I rd key p ret k0 = Some (Returned (OK, c, k1))"
  using assms
  by (subst SearchDownward.simps)
     (auto simp: idx_visit_def split: run.splits prod.splits if_splits)

lemma SearchDownward_internal:
  assumes "idx_visit I rd key (p, k0) = Some (False, c, k1)"
  shows "SearchDownward I rd key p ret k0 = SearchDownward I rd key c ret k1"
  using assms
  by (subst SearchDownward.simps)
     (auto simp: idx_visit_def split: run.splits prod.splits if_splits)

lemma SearchDownward_fail:
  assumes "idx_visit I rd key (p, k0) = None"
  shows "\<exists>res. SearchDownward I rd key p ret k0 = Some res \<and> (\<forall>c k. res \<noteq> Returned (OK, c, k))"
  using assms
  by (subst SearchDownward.simps)
     (auto simp: idx_visit_def split: run.splits prod.splits if_splits)

lemma leaf_reached_leaf:
  assumes "idx_visit I rd key pk = Some (True, ck')"
  shows "leaf_reached I rd key pk ck \<longleftrightarrow> ck = ck'"
proof
  assume "leaf_reached I rd key pk ck"
  then obtain qk where p: "(idx_step I rd key)\<^sup>*\<^sup>* pk qk" and l: "idx_leaf_answer I rd key qk ck"
    unfolding leaf_reached_def by blast
  from p have "qk = pk"
    by (rule converse_rtranclpE) (use assms in \<open>simp_all add: idx_step_def\<close>)
  with l assms show "ck = ck'" by (simp add: idx_leaf_answer_def)
next
  assume "ck = ck'"
  with assms have "idx_leaf_answer I rd key pk ck" by (simp add: idx_leaf_answer_def)
  then show "leaf_reached I rd key pk ck" unfolding leaf_reached_def by blast
qed

lemma leaf_reached_internal:
  assumes "idx_visit I rd key pk = Some (False, ck')"
  shows "leaf_reached I rd key pk ck \<longleftrightarrow> leaf_reached I rd key ck' ck"
proof
  assume "leaf_reached I rd key pk ck"
  then obtain qk where p: "(idx_step I rd key)\<^sup>*\<^sup>* pk qk" and l: "idx_leaf_answer I rd key qk ck"
    unfolding leaf_reached_def by blast
  from p show "leaf_reached I rd key ck' ck"
  proof (rule converse_rtranclpE)
    assume "pk = qk"
    with l assms show ?thesis by (simp add: idx_leaf_answer_def)
  next
    fix y assume "idx_step I rd key pk y" and r: "(idx_step I rd key)\<^sup>*\<^sup>* y qk"
    with assms have "y = ck'" by (simp add: idx_step_def)
    with r l show ?thesis unfolding leaf_reached_def by blast
  qed
next
  assume "leaf_reached I rd key ck' ck"
  then obtain qk where p: "(idx_step I rd key)\<^sup>*\<^sup>* ck' qk" and l: "idx_leaf_answer I rd key qk ck"
    unfolding leaf_reached_def by blast
  from assms have "idx_step I rd key pk ck'" by (simp add: idx_step_def)
  from this p have "(idx_step I rd key)\<^sup>*\<^sup>* pk qk" by (rule converse_rtranclp_into_rtranclp)
  with l show "leaf_reached I rd key pk ck" unfolding leaf_reached_def by blast
qed

lemma leaf_reached_fail:
  assumes "idx_visit I rd key pk = None"
  shows "\<not> leaf_reached I rd key pk ck"
proof
  assume "leaf_reached I rd key pk ck"
  then obtain qk where p: "(idx_step I rd key)\<^sup>*\<^sup>* pk qk" and l: "idx_leaf_answer I rd key qk ck"
    unfolding leaf_reached_def by blast
  from p have "qk = pk"
    by (rule converse_rtranclpE) (use assms in \<open>simp_all add: idx_step_def\<close>)
  with l assms show False by (simp add: idx_leaf_answer_def)
qed

lemma SearchDownward_descent:
  fixes depth :: "BlockPointer \<Rightarrow> nat"
  assumes wf: "\<And>q k0 c k1. q \<in> nodes \<Longrightarrow> idx_step I rd key (q, k0) (c, k1) \<Longrightarrow>
                  c \<in> nodes \<and> depth c < depth q"
    and "p \<in> nodes"
  shows "\<exists>res. SearchDownward I rd key p ret k0 = Some res \<and>
           (\<forall>c k. res = Returned (OK, c, k) \<longleftrightarrow> leaf_reached I rd key (p, k0) (c, k))"
  using \<open>p \<in> nodes\<close>
proof (induction "depth p" arbitrary: p k0 rule: less_induct)
  case less
  show ?case
  proof (cases "idx_visit I rd key (p, k0)")
    case None
    from SearchDownward_fail [OF None, of ret] leaf_reached_fail [OF None]
    show ?thesis by blast
  next
    case (Some v)
    obtain leaf c1 k1 where v: "v = (leaf, c1, k1)" by (cases v)
    show ?thesis
    proof (cases leaf)
      case True
      with Some v have l: "idx_visit I rd key (p, k0) = Some (True, (c1, k1))" by simp
      from SearchDownward_leaf [OF l, of ret] leaf_reached_leaf [OF l]
      show ?thesis by auto
    next
      case False
      with Some v have i: "idx_visit I rd key (p, k0) = Some (False, (c1, k1))" by simp
      then have "idx_step I rd key (p, k0) (c1, k1)" by (simp add: idx_step_def)
      from wf [OF less.prems this] have c1: "c1 \<in> nodes" and d: "depth c1 < depth p" by auto
      from less.hyps [OF d c1, of k1] SearchDownward_internal [OF i, of ret]
        leaf_reached_internal [OF i]
      show ?thesis by simp
    qed
  qed
qed


lemma SearchPosition_descent:
  fixes I :: "(u32, 'b) IndexBlockReader"
  assumes d: "\<And>root. GetIndexRootBlock rd kPositionalIndexIdentifier default_BlockPointer =
                 Returned (OK, root) \<Longrightarrow>
               \<exists>res. SearchDownward I rd key root ret k0 = Some res \<and>
                 (\<forall>c k. res = Returned (OK, c, k) \<longleftrightarrow> leaf_reached I rd key (root, k0) (c, k))"
  shows "\<exists>res. SearchPosition I rd key ret k0 = Some res \<and>
     (\<forall>c k. res = Returned (OK, c, k) \<longleftrightarrow>
        state rd = kInitialized \<and>
        (\<exists>root. GetIndexRootBlock rd kPositionalIndexIdentifier default_BlockPointer =
                  Returned (OK, root) \<and>
                leaf_reached I rd key (root, k0) (c, k)))"
proof (cases "state rd = kInitialized")
  case False
  then show ?thesis by (simp add: SearchPosition_def)
next
  case True
  show ?thesis
  proof (cases "GetIndexRootBlock rd kPositionalIndexIdentifier default_BlockPointer")
    case Aborted
    with True show ?thesis by (simp add: SearchPosition_def)
  next
    case (Returned x)
    obtain s root where x: "x = (s, root)" by (cases x)
    show ?thesis
    proof (cases "s = OK")
      case False
      with True Returned x show ?thesis by (simp add: SearchPosition_def)
    next
      case ok: True
      with Returned x have g: "GetIndexRootBlock rd kPositionalIndexIdentifier default_BlockPointer =
          Returned (OK, root)" by simp
      from d [OF g] True g show ?thesis by (simp add: SearchPosition_def)
    qed
  qed
qed

text \<open>
  Claim C8. Let \<open>nodes\<close> be a set of blocks with a depth each, such that the search in
  every internal block of \<open>nodes\<close> leads to a block of \<open>nodes\<close> of smaller depth. Then
  \<^verbatim>\<open>SearchDownward\<close> from a block of \<open>nodes\<close> returns, and it returns OK with a pointer
  and key exactly when following the child pointers from that block reaches a leaf
  whose search produces that pointer and key. The same holds for \<^verbatim>\<open>SearchPosition\<close>
  when the root of the positional index is in \<open>nodes\<close>.
\<close>

theorem SearchDownward_terminates:
  fixes depth :: "BlockPointer \<Rightarrow> nat" and I :: "(u32, 'b) IndexBlockReader"
  assumes "\<forall>q k0 c k1. q \<in> nodes \<and> idx_step I rd key (q, k0) (c, k1) \<longrightarrow>
             c \<in> nodes \<and> depth c < depth q"
  shows "(p \<in> nodes \<longrightarrow>
           (\<exists>res. SearchDownward I rd key p ret k0 = Some res \<and>
              (\<forall>c k. res = Returned (OK, c, k) \<longleftrightarrow> leaf_reached I rd key (p, k0) (c, k))))
       \<and> ((\<forall>root. GetIndexRootBlock rd kPositionalIndexIdentifier default_BlockPointer =
                     Returned (OK, root) \<longrightarrow> root \<in> nodes) \<longrightarrow>
           (\<exists>res. SearchPosition I rd key ret k0 = Some res \<and>
              (\<forall>c k. res = Returned (OK, c, k) \<longleftrightarrow>
                 state rd = kInitialized \<and>
                 (\<exists>root. GetIndexRootBlock rd kPositionalIndexIdentifier default_BlockPointer =
                           Returned (OK, root) \<and>
                         leaf_reached I rd key (root, k0) (c, k)))))"
proof (intro conjI impI)
  from assms have wf: "\<And>q k0 c k1. q \<in> nodes \<Longrightarrow> idx_step I rd key (q, k0) (c, k1) \<Longrightarrow>
      c \<in> nodes \<and> depth c < depth q" by blast
  {
    assume "p \<in> nodes"
    with wf show "\<exists>res. SearchDownward I rd key p ret k0 = Some res \<and>
        (\<forall>c k. res = Returned (OK, c, k) \<longleftrightarrow> leaf_reached I rd key (p, k0) (c, k))"
      by (rule SearchDownward_descent)
  next
    assume r: "\<forall>root. GetIndexRootBlock rd kPositionalIndexIdentifier default_BlockPointer =
        Returned (OK, root) \<longrightarrow> root \<in> nodes"
    show "\<exists>res. SearchPosition I rd key ret k0 = Some res \<and>
        (\<forall>c k. res = Returned (OK, c, k) \<longleftrightarrow>
           state rd = kInitialized \<and>
           (\<exists>root. GetIndexRootBlock rd kPositionalIndexIdentifier default_BlockPointer =
                     Returned (OK, root) \<and>
                   leaf_reached I rd key (root, k0) (c, k)))"
    proof (rule SearchPosition_descent)
      fix root
      assume "GetIndexRootBlock rd kPositionalIndexIdentifier default_BlockPointer = Returned (OK, root)"
      with r have "root \<in> nodes" by blast
      with wf show "\<exists>res. SearchDownward I rd key root ret k0 = Some res \<and>
          (\<forall>c k. res = Returned (OK, c, k) \<longleftrightarrow> leaf_reached I rd key (root, k0) (c, k))"
        by (rule SearchDownward_descent)
    qed
  }
qed

lemma example_visit_13:
  "idx_visit example_index example_reader key (\<lparr>ptr_offset = 13, ptr_size = 3\<rparr>, k0) =
     Some (False, \<lparr>ptr_offset = 16, ptr_size = 3\<rparr>, 0)"
  by (simp add: idx_visit_def ReadBlock_def example_reader_def example_index_def mem_file_def
        example_bytes_def)

lemma example_visit_16:
  "idx_visit example_index example_reader key (\<lparr>ptr_offset = 16, ptr_size = 3\<rparr>, k0) =
     Some (True, \<lparr>ptr_offset = 19, ptr_size = 2\<rparr>, 0)"
  by (simp add: idx_visit_def ReadBlock_def example_reader_def example_index_def mem_file_def
        example_bytes_def)

lemma example_root:
  "GetIndexRootBlock example_reader kPositionalIndexIdentifier default_BlockPointer =
     Returned (OK, \<lparr>ptr_offset = 13, ptr_size = 3\<rparr>)"
  by (simp add: GetIndexRootBlock_def example_reader_def)

lemma example_leaf_reached:
  "leaf_reached example_index example_reader key (\<lparr>ptr_offset = 13, ptr_size = 3\<rparr>, k0)
     (\<lparr>ptr_offset = 19, ptr_size = 2\<rparr>, 0)"
  by (simp add: leaf_reached_internal [OF example_visit_13] leaf_reached_leaf [OF example_visit_16])

theorem SearchDownward_terminates_witness:
  "SearchDownward example_index example_reader 5 \<lparr>ptr_offset = 13, ptr_size = 3\<rparr>
       default_BlockPointer 7 = Some (Returned (OK, \<lparr>ptr_offset = 19, ptr_size = 2\<rparr>, 0))
   \<and> SearchPosition example_index example_reader 5 default_BlockPointer 7 =
       Some (Returned (OK, \<lparr>ptr_offset = 19, ptr_size = 2\<rparr>, 0))"
proof -
  let ?nodes = "{\<lparr>ptr_offset = 13, ptr_size = 3\<rparr>, \<lparr>ptr_offset = 16, ptr_size = 3\<rparr>}"
  let ?depth = "\<lambda>p. if p = \<lparr>ptr_offset = 13, ptr_size = 3\<rparr> then 1 else (0 :: nat)"
  have wf: "\<forall>q k0 c k1. q \<in> ?nodes \<and> idx_step example_index example_reader 5 (q, k0) (c, k1) \<longrightarrow>
      c \<in> ?nodes \<and> ?depth c < ?depth q"
    by (auto simp: idx_step_def example_visit_13 example_visit_16)
  have root: "\<forall>root. GetIndexRootBlock example_reader kPositionalIndexIdentifier default_BlockPointer =
      Returned (OK, root) \<longrightarrow> root \<in> ?nodes"
    by (simp add: example_root)
  note c = SearchDownward_terminates [OF wf, of "\<lparr>ptr_offset = 13, ptr_size = 3\<rparr>" default_BlockPointer 7]
  have i: "state example_reader = kInitialized" by (simp add: example_reader_def)
  from c obtain res where
    r: "SearchDownward example_index example_reader 5 \<lparr>ptr_offset = 13, ptr_size = 3\<rparr>
          default_BlockPointer 7 = Some res"
    and rr: "\<forall>c k. res = Returned (OK, c, k) \<longleftrightarrow>
          leaf_reached example_index example_reader 5 (\<lparr>ptr_offset = 13, ptr_size = 3\<rparr>, 7) (c, k)"
    by auto
  from rr example_leaf_reached have "res = Returned (OK, \<lparr>ptr_offset = 19, ptr_size = 2\<rparr>, 0)"
    by blast
  with r have a: "SearchDownward example_index example_reader 5 \<lparr>ptr_offset = 13, ptr_size = 3\<rparr>
       default_BlockPointer 7 = Some (Returned (OK, \<lparr>ptr_offset = 19, ptr_size = 2\<rparr>, 0))"
    by simp
  from c root obtain res2 where
    s: "SearchPosition example_index example_reader 5 default_BlockPointer 7 = Some res2"
    and ss: "\<forall>c k. res2 = Returned (OK, c, k) \<longleftrightarrow>
          state example_reader = kInitialized \<and>
          (\<exists>root. GetIndexRootBlock example_reader kPositionalIndexIdentifier default_BlockPointer =
                    Returned (OK, root) \<and>
                  leaf_reached example_index example_reader 5 (root, 7) (c, k))"
    by blast
  from ss i example_root example_leaf_reached
  have "res2 = Returned (OK, \<lparr>ptr_offset = 19, ptr_size = 2\<rparr>, 0)" by blast
  with s a show ?thesis by simp
qed


text \<open>
  The measure is needed: on an internal block whose search leads back to the block
  itself, the descent never returns.
\<close>

lemma SearchDownward_self_loop_aux:
  assumes loop: "idx_visit I rd key (p, k0) = Some (False, p, k0)"
    and s: "SearchDownward I' rd' key' p' ret' k' = Some y"
  shows "\<not> (I' = I \<and> rd' = rd \<and> key' = key \<and> p' = p \<and> k' = k0)"
  by (rule SearchDownward.raw_induct
        [where P = "\<lambda>I' rd' key' p' ret' k' y.
           \<not> (I' = I \<and> rd' = rd \<and> key' = key \<and> p' = p \<and> k' = k0)", OF _ s])
     (use loop in \<open>force simp: idx_visit_def split: run.splits prod.splits if_splits\<close>)

lemma SearchDownward_self_loop:
  assumes "idx_visit I rd key (p, k0) = Some (False, p, k0)"
  shows "SearchDownward I rd key p ret k0 = None"
proof (cases "SearchDownward I rd key p ret k0")
  case None
  then show ?thesis .
next
  case (Some y)
  from SearchDownward_self_loop_aux [OF assms Some] show ?thesis by simp
qed

subsection \<open>The iterator\<close>

lemma SeekToOrdinal_OK_iff:
  "SeekToOrdinal dchecks T D it ord = Returned (OK, it') \<longleftrightarrow>
     (\<exists>c data d1.
        SeekAtOrBefore T (idx_iter it) ord = Returned (OK, c) \<and>
        ReadBlock (reader it) (GetCurrentBlockPointer T c) [] = Returned (OK, data) \<and>
        ParseHeader D (new_IntBlockDecoder D data) = (OK, d1) \<and>
        \<not> (ord \<ge> ordinal_pos D d1 + Count D d1) \<and>
        (dchecks \<longrightarrow> ord \<ge> ordinal_pos D d1 \<and>
           ord = ordinal_pos D (SeekToPositionInBlock D d1 (ord - ordinal_pos D d1))) \<and>
        it' = it\<lparr>idx_iter := c, seeked := True, dblk_data := data,
                 dblk := Some (SeekToPositionInBlock D d1 (ord - ordinal_pos D d1))\<rparr>)"
  by (auto simp: SeekToOrdinal_def Let_def split: run.splits prod.splits if_splits)

lemma SeekToOrdinal_not_OK:
  assumes "SeekToOrdinal dchecks T D it ord = Returned (s, it')" and "s \<noteq> OK"
  shows "\<not> seeked it'"
  using assms
  by (auto simp: SeekToOrdinal_def Let_def split: run.splits prod.splits if_splits)

lemma SeekToOrdinal_NotFound:
  assumes "SeekAtOrBefore T (idx_iter it) ord = Returned (OK, c)"
    and "ReadBlock (reader it) (GetCurrentBlockPointer T c) [] = Returned (OK, data)"
    and "ParseHeader D (new_IntBlockDecoder D data) = (OK, d1)"
    and "ord \<ge> ordinal_pos D d1 + Count D d1"
  shows "SeekToOrdinal dchecks T D it ord =
     Returned (NotFound ''trying to seek past highest ordinal in file'',
       it\<lparr>seeked := False, idx_iter := c, dblk_data := data, dblk := Some d1\<rparr>)"
  using assms by (simp add: SeekToOrdinal_def Let_def)

lemma u32_sum_le:
  assumes "unat (a :: u32) + unat (b :: u32) \<le> unat (c :: u32)"
  shows "a + b \<le> c"
proof -
  have "unat c < 2 ^ 32" using unsigned_less [of c, where 'a=nat] by simp
  with assms have "unat a + unat b < 2 ^ 32" by simp
  then have "unat (a + b) = unat a + unat b" by (simp add: unat_word_ariths)
  with assms show ?thesis by (simp add: word_le_nat_alt)
qed


lemma GetCurrentOrdinal_seeked:
  "GetCurrentOrdinal D (it\<lparr>idx_iter := c, seeked := True, dblk_data := data, dblk := Some d\<rparr>) =
     Returned (ordinal_pos D d)"
  by (simp add: GetCurrentOrdinal_def)

lemma found_block_OK:
  assumes "SeekAtOrBefore T (idx_iter it) ord = Returned (OK, c)"
    and "ReadBlock (reader it) (GetCurrentBlockPointer T c) [] = Returned (OK, data)"
    and "ParseHeader D (new_IntBlockDecoder D data) = (OK, d1)"
  shows "found_block T D it ord = Some d1"
  using assms by (simp add: found_block_def)

lemma u32_offset_in_block:
  assumes "\<not> (ord \<ge> pos + cnt)" and "pos \<le> (ord :: u32)"
  shows "ord - pos < cnt"
proof -
  from assms(2) have le: "unat pos \<le> unat ord" by (simp add: word_le_nat_alt)
  from assms(2) have sub: "unat (ord - pos) = unat ord - unat pos" by (rule unat_sub)
  have b: "unat ord < 2 ^ 32" using unsigned_less [of ord, where 'a=nat] by simp
  have c: "unat cnt < 2 ^ 32" using unsigned_less [of cnt, where 'a=nat] by simp
  from assms(1) have lt: "unat ord < unat (pos + cnt)" by (simp add: word_le_nat_alt)
  have s: "unat (pos + cnt) = (unat pos + unat cnt) mod 2 ^ 32" by (simp add: unat_word_ariths)
  have "unat ord < unat pos + unat cnt"
  proof (cases "unat pos + unat cnt < 2 ^ 32")
    case True
    with lt s show ?thesis by simp
  next
    case False
    with b show ?thesis by simp
  qed
  with le sub have "unat (ord - pos) < unat cnt" by simp
  then show ?thesis by (simp add: word_less_nat_alt)
qed

lemma SeekToOrdinal_current:
  assumes ok: "SeekToOrdinal dchecks T D it ord = Returned (OK, it')"
  shows "seeked it'
     \<and> (dchecks \<longrightarrow> GetCurrentOrdinal D it' = Returned ord)
     \<and> (relative_seek_contract D \<and>
          (\<forall>d. found_block T D it ord = Some d \<longrightarrow> ordinal_pos D d \<le> ord) \<longrightarrow>
          GetCurrentOrdinal D it' = Returned ord)"
proof -
  from ok obtain c data d1 where
    s: "SeekAtOrBefore T (idx_iter it) ord = Returned (OK, c)"
    and r: "ReadBlock (reader it) (GetCurrentBlockPointer T c) [] = Returned (OK, data)"
    and p: "ParseHeader D (new_IntBlockDecoder D data) = (OK, d1)"
    and n: "\<not> (ord \<ge> ordinal_pos D d1 + Count D d1)"
    and dc: "dchecks \<longrightarrow> ord = ordinal_pos D (SeekToPositionInBlock D d1 (ord - ordinal_pos D d1))"
    and it': "it' = it\<lparr>idx_iter := c, seeked := True, dblk_data := data,
                 dblk := Some (SeekToPositionInBlock D d1 (ord - ordinal_pos D d1))\<rparr>"
    unfolding SeekToOrdinal_OK_iff by blast
  have cur: "GetCurrentOrdinal D it' =
      Returned (ordinal_pos D (SeekToPositionInBlock D d1 (ord - ordinal_pos D d1)))"
    unfolding it' by (simp add: GetCurrentOrdinal_def)
  have a: "seeked it'" unfolding it' by simp
  have b: "dchecks \<longrightarrow> GetCurrentOrdinal D it' = Returned ord"
    using dc cur by simp
  have c: "relative_seek_contract D \<and>
          (\<forall>d. found_block T D it ord = Some d \<longrightarrow> ordinal_pos D d \<le> ord) \<longrightarrow>
          GetCurrentOrdinal D it' = Returned ord"
  proof
    assume h: "relative_seek_contract D \<and>
          (\<forall>d. found_block T D it ord = Some d \<longrightarrow> ordinal_pos D d \<le> ord)"
    with found_block_OK [OF s r p] have le: "ordinal_pos D d1 \<le> ord" by blast
    from u32_offset_in_block [OF n le] have "ord - ordinal_pos D d1 < Count D d1" .
    with h p have "ordinal_pos D (SeekToPositionInBlock D d1 (ord - ordinal_pos D d1)) =
        ordinal_pos D d1 + (ord - ordinal_pos D d1)"
      unfolding relative_seek_contract_def by blast
    with cur show "GetCurrentOrdinal D it' = Returned ord" by simp
  qed
  from a b c show ?thesis by blast
qed

lemma SeekToOrdinal_again:
  assumes ok: "SeekToOrdinal dchecks T D it ord = Returned (OK, it')"
    and a: "at_or_before_contract T"
  shows "SeekToOrdinal dchecks T D it' ord = Returned (OK, it')"
proof -
  from ok obtain c data d1 where
    s: "SeekAtOrBefore T (idx_iter it) ord = Returned (OK, c)"
    and r: "ReadBlock (reader it) (GetCurrentBlockPointer T c) [] = Returned (OK, data)"
    and p: "ParseHeader D (new_IntBlockDecoder D data) = (OK, d1)"
    and n: "\<not> (ord \<ge> ordinal_pos D d1 + Count D d1)"
    and dc: "dchecks \<longrightarrow> ord \<ge> ordinal_pos D d1 \<and>
           ord = ordinal_pos D (SeekToPositionInBlock D d1 (ord - ordinal_pos D d1))"
    and it': "it' = it\<lparr>idx_iter := c, seeked := True, dblk_data := data,
                 dblk := Some (SeekToPositionInBlock D d1 (ord - ordinal_pos D d1))\<rparr>"
    unfolding SeekToOrdinal_OK_iff by blast
  from a s have s': "SeekAtOrBefore T c ord = Returned (OK, c)"
    unfolding at_or_before_contract_def by blast
  have i: "idx_iter it' = c" and rd: "reader it' = reader it" unfolding it' by simp_all
  show ?thesis
    unfolding SeekToOrdinal_OK_iff
  proof (intro exI conjI)
    show "SeekAtOrBefore T (idx_iter it') ord = Returned (OK, c)" using s' i by simp
    show "ReadBlock (reader it') (GetCurrentBlockPointer T c) [] = Returned (OK, data)"
      using r rd by simp
    show "ParseHeader D (new_IntBlockDecoder D data) = (OK, d1)" by (rule p)
    show "\<not> (ord \<ge> ordinal_pos D d1 + Count D d1)" by (rule n)
    show "dchecks \<longrightarrow> ord \<ge> ordinal_pos D d1 \<and>
           ord = ordinal_pos D (SeekToPositionInBlock D d1 (ord - ordinal_pos D d1))" by (rule dc)
    show "it' = it'\<lparr>idx_iter := c, seeked := True, dblk_data := data,
                 dblk := Some (SeekToPositionInBlock D d1 (ord - ordinal_pos D d1))\<rparr>"
      unfolding it' by simp
  qed
qed

text \<open>
  Claim C4, amended. When \<^verbatim>\<open>SeekToOrdinal(target)\<close> returns OK, the seeked flag is set.
  \<^verbatim>\<open>GetCurrentOrdinal()\<close> then returns \<open>target\<close> in a build that keeps \<^verbatim>\<open>DCHECK\<close>, for
  any decoder; and in a build without \<^verbatim>\<open>DCHECK\<close> when the data block that the index
  seek found starts at or before \<open>target\<close> and the decoder keeps the contract of the
  relative seek within the block. The same holds for a second successful seek to another
  ordinal. A second seek to the same ordinal returns OK and leaves the same iterator,
  for a cursor that keeps the contract of the at-or-before seek.
\<close>

theorem SeekToOrdinal_postcondition:
  assumes ok: "SeekToOrdinal dchecks T D it ord = Returned (OK, it')"
  shows "seeked it'
     \<and> (dchecks \<longrightarrow> GetCurrentOrdinal D it' = Returned ord)
     \<and> (relative_seek_contract D \<and>
          (\<forall>d. found_block T D it ord = Some d \<longrightarrow> ordinal_pos D d \<le> ord) \<longrightarrow>
          GetCurrentOrdinal D it' = Returned ord)
     \<and> (\<forall>ord2 it''. SeekToOrdinal dchecks T D it' ord2 = Returned (OK, it'') \<longrightarrow>
           seeked it'' \<and>
           (dchecks \<longrightarrow> GetCurrentOrdinal D it'' = Returned ord2) \<and>
           (relative_seek_contract D \<and>
              (\<forall>d. found_block T D it' ord2 = Some d \<longrightarrow> ordinal_pos D d \<le> ord2) \<longrightarrow>
              GetCurrentOrdinal D it'' = Returned ord2))
     \<and> (at_or_before_contract T \<longrightarrow> SeekToOrdinal dchecks T D it' ord = Returned (OK, it'))"
proof -
  note first = SeekToOrdinal_current [OF ok]
  have second: "\<forall>ord2 it''. SeekToOrdinal dchecks T D it' ord2 = Returned (OK, it'') \<longrightarrow>
           seeked it'' \<and>
           (dchecks \<longrightarrow> GetCurrentOrdinal D it'' = Returned ord2) \<and>
           (relative_seek_contract D \<and>
              (\<forall>d. found_block T D it' ord2 = Some d \<longrightarrow> ordinal_pos D d \<le> ord2) \<longrightarrow>
              GetCurrentOrdinal D it'' = Returned ord2)"
    using SeekToOrdinal_current by blast
  have again: "at_or_before_contract T \<longrightarrow> SeekToOrdinal dchecks T D it' ord = Returned (OK, it')"
    using SeekToOrdinal_again [OF ok] by blast
  from first second again show ?thesis by blast
qed

text \<open>
  Claim C5. When \<^verbatim>\<open>SeekToOrdinal\<close> returns a status other than OK, the seeked flag is
  clear, and \<^verbatim>\<open>GetCurrentOrdinal()\<close> is aborted. In particular, when the index seek,
  the block read and the header decoding succeed and \<open>target \<ge> ordinal_pos + count\<close>,
  \<^verbatim>\<open>SeekToOrdinal\<close> returns NotFound with the flag clear. \<^verbatim>\<open>GetCurrentOrdinal()\<close> is
  aborted whenever the flag is clear.
\<close>

theorem SeekToOrdinal_failure:
  "(\<forall>s it'. SeekToOrdinal dchecks T D it ord = Returned (s, it') \<and> s \<noteq> OK \<longrightarrow>
       \<not> seeked it' \<and> GetCurrentOrdinal D it' = Aborted)
   \<and> (\<forall>c data d1.
         SeekAtOrBefore T (idx_iter it) ord = Returned (OK, c) \<and>
         ReadBlock (reader it) (GetCurrentBlockPointer T c) [] = Returned (OK, data) \<and>
         ParseHeader D (new_IntBlockDecoder D data) = (OK, d1) \<and>
         unat (ordinal_pos D d1) + unat (Count D d1) \<le> unat ord \<longrightarrow>
         (\<exists>it'. SeekToOrdinal dchecks T D it ord =
                  Returned (NotFound ''trying to seek past highest ordinal in file'', it') \<and>
                \<not> seeked it' \<and> GetCurrentOrdinal D it' = Aborted))
   \<and> (\<not> seeked it \<longrightarrow> GetCurrentOrdinal D it = Aborted)"
proof (intro conjI allI impI)
  fix s it' assume h: "SeekToOrdinal dchecks T D it ord = Returned (s, it') \<and> s \<noteq> OK"
  then have "\<not> seeked it'" using SeekToOrdinal_not_OK by blast
  then show "\<not> seeked it'" and "GetCurrentOrdinal D it' = Aborted"
    by (simp_all add: GetCurrentOrdinal_def)
next
  fix c data d1
  assume h: "SeekAtOrBefore T (idx_iter it) ord = Returned (OK, c) \<and>
         ReadBlock (reader it) (GetCurrentBlockPointer T c) [] = Returned (OK, data) \<and>
         ParseHeader D (new_IntBlockDecoder D data) = (OK, d1) \<and>
         unat (ordinal_pos D d1) + unat (Count D d1) \<le> unat ord"
  then have le: "ordinal_pos D d1 + Count D d1 \<le> ord" using u32_sum_le by blast
  from h have h1: "SeekAtOrBefore T (idx_iter it) ord = Returned (OK, c)"
    and h2: "ReadBlock (reader it) (GetCurrentBlockPointer T c) [] = Returned (OK, data)"
    and h3: "ParseHeader D (new_IntBlockDecoder D data) = (OK, d1)" by simp_all
  have "SeekToOrdinal dchecks T D it ord =
     Returned (NotFound ''trying to seek past highest ordinal in file'',
       it\<lparr>seeked := False, idx_iter := c, dblk_data := data, dblk := Some d1\<rparr>)"
    by (rule SeekToOrdinal_NotFound [OF h1 h2 h3 le])
  then show "\<exists>it'. SeekToOrdinal dchecks T D it ord =
                  Returned (NotFound ''trying to seek past highest ordinal in file'', it') \<and>
                \<not> seeked it' \<and> GetCurrentOrdinal D it' = Aborted"
    by (simp add: GetCurrentOrdinal_def)
next
  assume "\<not> seeked it"
  then show "GetCurrentOrdinal D it = Aborted" by (simp add: GetCurrentOrdinal_def)
qed


lemma example_decoder_contract: "relative_seek_contract example_decoder"
  by (simp add: relative_seek_contract_def example_decoder_def)

lemma example_cursor_contract: "at_or_before_contract example_cursor"
  by (simp add: at_or_before_contract_def example_cursor_def)

lemma example_read_data:
  "ReadBlock example_reader \<lparr>ptr_offset = 19, ptr_size = 2\<rparr> [] = Returned (OK, [0, 100])"
  by (simp add: ReadBlock_def example_reader_def mem_file_def example_bytes_def)

lemma example_seek_50:
  "SeekToOrdinal False example_cursor example_decoder example_iterator 50 =
     Returned (OK, example_seeked)"
  by (simp add: SeekToOrdinal_def Let_def example_cursor_def example_iterator_def
        new_CFileIterator_def example_read_data example_decoder_def example_seeked_def)

lemma example_found_block:
  "found_block example_cursor example_decoder example_iterator 50 = Some ([0, 100], 0)"
  by (simp add: found_block_def example_cursor_def example_iterator_def new_CFileIterator_def
        example_read_data example_decoder_def)

lemma example_seek_50_dchecks:
  "SeekToOrdinal True example_cursor example_decoder example_iterator 50 =
     Returned (OK, example_seeked)"
  by (simp add: SeekToOrdinal_def Let_def example_cursor_def example_iterator_def
        new_CFileIterator_def example_read_data example_decoder_def example_seeked_def)

theorem SeekToOrdinal_postcondition_witness:
  "SeekToOrdinal False example_cursor example_decoder example_iterator 50 =
     Returned (OK, example_seeked)
   \<and> relative_seek_contract example_decoder
   \<and> at_or_before_contract example_cursor
   \<and> seeked example_seeked
   \<and> GetCurrentOrdinal example_decoder example_seeked = Returned 50
   \<and> SeekToOrdinal False example_cursor example_decoder example_seeked 50 =
     Returned (OK, example_seeked)
   \<and> SeekToOrdinal True example_cursor example_decoder example_iterator 50 =
     Returned (OK, example_seeked)"
proof -
  have b: "\<forall>d. found_block example_cursor example_decoder example_iterator 50 = Some d \<longrightarrow>
      ordinal_pos example_decoder d \<le> 50"
    unfolding example_found_block by (simp add: example_decoder_def)
  from SeekToOrdinal_postcondition [OF example_seek_50] example_decoder_contract b
    example_cursor_contract
  have 1: "seeked example_seeked \<and> GetCurrentOrdinal example_decoder example_seeked = Returned 50
     \<and> SeekToOrdinal False example_cursor example_decoder example_seeked 50 =
       Returned (OK, example_seeked)"
    by blast
  from SeekToOrdinal_postcondition [OF example_seek_50_dchecks]
  have 2: "GetCurrentOrdinal example_decoder example_seeked = Returned 50" by blast
  from 1 2 example_seek_50 example_seek_50_dchecks example_decoder_contract
    example_cursor_contract
  show ?thesis by blast
qed

lemma clamping_decoder_contract: "relative_seek_contract clamping_decoder"
  by (simp add: relative_seek_contract_def clamping_decoder_def example_decoder_def)

lemma skewed_read_data:
  "ReadBlock (example_reader\<lparr>file_Read := mem_file skewed_bytes\<rparr>)
     \<lparr>ptr_offset = 19, ptr_size = 2\<rparr> [] = Returned (OK, [60, 100])"
  by (simp add: ReadBlock_def example_reader_def mem_file_def skewed_bytes_def)

text \<open>
  Claim C4 as stated fails in a build without \<^verbatim>\<open>DCHECK\<close>. The index seek for 50 leads
  to the block that holds the ordinals 60 to 159; \<open>50 \<ge> 60 + 100\<close> is false, so the
  seek goes on with the relative position \<open>50 - 60\<close>, which wraps to \<open>2^32 - 10\<close>. The
  decoder, which keeps the contract of the relative seek within the block, stops at the
  last entry: \<^verbatim>\<open>SeekToOrdinal(50)\<close> returns OK and \<^verbatim>\<open>GetCurrentOrdinal()\<close> returns 159.
\<close>

theorem SeekToOrdinal_release_counterexample:
  "relative_seek_contract clamping_decoder
   \<and> SeekToOrdinal False example_cursor clamping_decoder skewed_iterator 50 =
       Returned (OK, skewed_iterator\<lparr>idx_iter := \<lparr>ptr_offset = 19, ptr_size = 2\<rparr>,
         seeked := True, dblk_data := [60, 100], dblk := Some ([60, 100], 99)\<rparr>)
   \<and> GetCurrentOrdinal clamping_decoder
         (skewed_iterator\<lparr>idx_iter := \<lparr>ptr_offset = 19, ptr_size = 2\<rparr>,
            seeked := True, dblk_data := [60, 100], dblk := Some ([60, 100], 99)\<rparr>) =
       Returned 159"
proof -
  have s: "SeekToOrdinal False example_cursor clamping_decoder skewed_iterator 50 =
       Returned (OK, skewed_iterator\<lparr>idx_iter := \<lparr>ptr_offset = 19, ptr_size = 2\<rparr>,
         seeked := True, dblk_data := [60, 100], dblk := Some ([60, 100], 99)\<rparr>)"
    by (simp add: SeekToOrdinal_def Let_def example_cursor_def skewed_iterator_def
          new_CFileIterator_def skewed_read_data clamping_decoder_def example_decoder_def)
  have g: "GetCurrentOrdinal clamping_decoder
         (skewed_iterator\<lparr>idx_iter := \<lparr>ptr_offset = 19, ptr_size = 2\<rparr>,
            seeked := True, dblk_data := [60, 100], dblk := Some ([60, 100], 99)\<rparr>) =
       Returned 159"
    by (simp add: GetCurrentOrdinal_def clamping_decoder_def example_decoder_def)
  from clamping_decoder_contract s g show ?thesis by blast
qed

theorem SeekToOrdinal_failure_witness:
  "(\<exists>it'. SeekToOrdinal True example_cursor example_decoder example_iterator 150 =
            Returned (NotFound ''trying to seek past highest ordinal in file'', it') \<and>
          \<not> seeked it' \<and> GetCurrentOrdinal example_decoder it' = Aborted)
   \<and> GetCurrentOrdinal example_decoder example_iterator = Aborted"
proof -
  note c = SeekToOrdinal_failure [of True example_cursor example_decoder example_iterator 150]
  have s: "SeekAtOrBefore example_cursor (idx_iter example_iterator) 150 =
      Returned (OK, \<lparr>ptr_offset = 19, ptr_size = 2\<rparr>)"
    by (simp add: example_cursor_def)
  have r: "ReadBlock (reader example_iterator)
      (GetCurrentBlockPointer example_cursor \<lparr>ptr_offset = 19, ptr_size = 2\<rparr>) [] =
      Returned (OK, [0, 100])"
    by (simp add: example_cursor_def example_iterator_def new_CFileIterator_def example_read_data)
  have p: "ParseHeader example_decoder (new_IntBlockDecoder example_decoder [0, 100]) =
      (OK, ([0, 100], 0))"
    by (simp add: example_decoder_def)
  have n: "unat (ordinal_pos example_decoder ([0, 100], 0)) +
      unat (Count example_decoder ([0, 100], 0)) \<le> unat (150 :: u32)"
    by (simp add: example_decoder_def)
  have u: "\<not> seeked example_iterator"
    by (simp add: example_iterator_def new_CFileIterator_def)
  from c s r p n have a: "\<exists>it'. SeekToOrdinal True example_cursor example_decoder example_iterator 150 =
            Returned (NotFound ''trying to seek past highest ordinal in file'', it') \<and>
          \<not> seeked it' \<and> GetCurrentOrdinal example_decoder it' = Aborted"
    by blast
  from c u have b: "GetCurrentOrdinal example_decoder example_iterator = Aborted" by blast
  from a b show ?thesis by blast
qed


end
